theory Spec2Isabelle
  imports Main "HOL-Library.Sublist"
begin

section \<open>The host-facing Manager facade of OpenAssetIO (hostApi/Manager.cpp)\<close>

text \<open>
  The facade forwards calls of a host application to a manager plugin (an implementation
  of \<open>ManagerInterface\<close>). The plugin is an object with state of its own whose methods
  may throw; the facade owns one mutable member, the cached entity reference prefix.
  Every function below is the translation of the C++ function of the same name. Members
  that C++ writes with a trailing underscore (\<open>managerInterface_\<close>, \<open>register_\<close>) lose
  it, and the \<open>locale\<close> member of a context is \<open>contextLocale\<close>.
\<close>

subsection \<open>Values that cross the boundary\<close>

type_synonym Str = string
type_synonym Identifier = Str
type_synonym StrMap = "Str \<rightharpoonup> Str"

text \<open>
  Modelled from the spec: the value type of an info dictionary is declared in
  typedefs.hpp, which is not part of the sources. A value is string-typed or of one of
  the other primitive types (a float is kept as its bit pattern).
\<close>

datatype InfoDictionaryValue = InfoBool bool | InfoInt int | InfoFloat int | InfoStr Str

type_synonym InfoDictionary = "Str \<rightharpoonup> InfoDictionaryValue"

text \<open>
  Modelled from the spec: \<open>EntityReference\<close>, \<open>TraitsData\<close>, \<open>Context\<close>,
  \<open>BatchElementError\<close>, the access enumerations and the capability enumeration are
  declared in headers that are not part of the sources. An entity reference wraps a
  string; a traits data is a bundle of property values keyed by trait identifier, held
  through a pointer that may be null; an access mode is the integral value of its
  enumerator, so that the \<open>static_cast\<close> to \<open>internal::access::Access\<close> changes
  nothing; a manager state and a pager are opaque handles made by the plugin.
\<close>

datatype EntityReference = EntityReference (toString: Str)

type_synonym EntityReferences = "EntityReference list"
type_synonym TraitSet = "Str set"
type_synonym TraitSets = "TraitSet list"
type_synonym TraitsData = "Str \<rightharpoonup> (Str \<rightharpoonup> InfoDictionaryValue)"
type_synonym TraitsDataPtr = "TraitsData option"
type_synonym TraitsDatas = "TraitsDataPtr list"
type_synonym Access = nat
type_synonym ManagerStateBasePtr = "nat option"
type_synonym EntityReferencePagerInterfacePtr = nat

datatype BatchElementError = BatchElementError (errorCode: nat) (errorMessage: Str)

record Context =
  contextLocale :: TraitsDataPtr
  managerState :: ManagerStateBasePtr

text \<open>
  Modelled from the spec: \<open>Context::make\<close> (Context.hpp, absent) builds a context
  around the given locale, a null one when the argument is omitted, with no manager state.
\<close>

definition Context_make :: "TraitsDataPtr \<Rightarrow> Context" where
  "Context_make loc = \<lparr>contextLocale = loc, managerState = None\<rparr>"

text \<open>Only the enumerators that Manager.cpp names are listed.\<close>

datatype Capability =
    kEntityReferenceIdentification
  | kManagementPolicyQueries
  | kEntityTraitIntrospection
  | kStatefulContexts

text \<open>The host-facing pager wraps the plugin's pager together with the host session.\<close>

datatype EntityReferencePager = EntityReferencePager EntityReferencePagerInterfacePtr

definition EntityReferencePager_make :: "EntityReferencePagerInterfacePtr \<Rightarrow> EntityReferencePager" where
  "EntityReferencePager_make pagerInterface = EntityReferencePager pagerInterface"

subsection \<open>Exceptions and effects\<close>

text \<open>
  \<open>OtherException\<close> is any exception that a plugin or a host callback raises besides the
  three that this file throws. \<open>UndefinedBehaviour\<close> is not a C++ exception: it marks
  a run that subscripts a vector out of range, which C++ leaves undefined; the model
  stops there.
\<close>

datatype exception =
    ConfigurationException Str
  | InputValidationException Str
  | BatchElementException nat BatchElementError Str
  | OtherException Str
  | UndefinedBehaviour

text \<open>
  An action runs on a state and either returns a value (\<open>Inr\<close>) or throws (\<open>Inl\<close>);
  whatever it changed before throwing stays changed.
\<close>

type_synonym ('r, 's) action = "'s \<Rightarrow> (exception + 'r) \<times> 's"

datatype LogMessage = DebugApi Str | Warning Str

datatype Method =
    M_identifier | M_displayName | M_hasCapability Capability | M_info
  | M_updateTerminology | M_settings | M_initialize | M_flushCaches
  | M_managementPolicy | M_createState | M_createChildState
  | M_persistenceTokenForState | M_stateFromPersistenceToken
  | M_isEntityReferenceString Str
  | M_entityExists | M_entityTraits | M_resolve | M_defaultEntityReference
  | M_getWithRelationship | M_getWithRelationships | M_preflight | M_register

text \<open>
  What passes between facade and plugin is recorded, oldest first: each call of a plugin
  method, and each callback that the plugin invokes during a batch call.
\<close>

datatype Event =
    PluginCall Method
  | SuccessCallback nat
  | ErrorCallback nat BatchElementError

text \<open>
  A batch method of the plugin receives two callbacks that return nothing, so all that
  the facade sees of one call is the sequence of callback invocations (each with the state
  the plugin is in at that moment), then how the method ends when every callback has
  returned (normally, or with an exception of the plugin's own), and the plugin's state at
  that end. An exception thrown by a callback passes through the plugin, which is left in
  the state of that invocation.
\<close>

datatype 'v Invocation = InvokeSuccess nat 'v | InvokeError nat BatchElementError

type_synonym ('v, 'p) BatchRun = "('p \<times> 'v Invocation) list \<times> (exception + unit) \<times> 'p"

text \<open>
  The methods of \<open>ManagerInterface\<close> that Manager.cpp calls, over the plugin's state
  \<open>'p\<close>. The host session that C++ passes along is omitted: what a plugin logs is not
  modelled.
\<close>

record 'p ManagerInterface =
  plugin_identifier :: "(Identifier, 'p) action"
  plugin_displayName :: "(Str, 'p) action"
  plugin_hasCapability :: "Capability \<Rightarrow> (bool, 'p) action"
  plugin_info :: "(InfoDictionary, 'p) action"
  plugin_updateTerminology :: "StrMap \<Rightarrow> (StrMap, 'p) action"
  plugin_settings :: "(InfoDictionary, 'p) action"
  plugin_initialize :: "InfoDictionary \<Rightarrow> (unit, 'p) action"
  plugin_flushCaches :: "(unit, 'p) action"
  plugin_managementPolicy :: "TraitSets \<Rightarrow> Access \<Rightarrow> Context \<Rightarrow> (TraitsDatas, 'p) action"
  plugin_createState :: "(ManagerStateBasePtr, 'p) action"
  plugin_createChildState :: "ManagerStateBasePtr \<Rightarrow> (ManagerStateBasePtr, 'p) action"
  plugin_persistenceTokenForState :: "ManagerStateBasePtr \<Rightarrow> (Str, 'p) action"
  plugin_stateFromPersistenceToken :: "Str \<Rightarrow> (ManagerStateBasePtr, 'p) action"
  plugin_isEntityReferenceString :: "Str \<Rightarrow> (bool, 'p) action"
  plugin_entityExists :: "EntityReferences \<Rightarrow> Context \<Rightarrow> 'p \<Rightarrow> (bool, 'p) BatchRun"
  plugin_entityTraits ::
    "EntityReferences \<Rightarrow> Access \<Rightarrow> Context \<Rightarrow> 'p \<Rightarrow> (TraitSet, 'p) BatchRun"
  plugin_resolve ::
    "EntityReferences \<Rightarrow> TraitSet \<Rightarrow> Access \<Rightarrow> Context \<Rightarrow> 'p \<Rightarrow> (TraitsDataPtr, 'p) BatchRun"
  plugin_defaultEntityReference ::
    "TraitSets \<Rightarrow> Access \<Rightarrow> Context \<Rightarrow> 'p \<Rightarrow> (EntityReference option, 'p) BatchRun"
  plugin_getWithRelationship ::
    "EntityReferences \<Rightarrow> TraitsDataPtr \<Rightarrow> TraitSet \<Rightarrow> nat \<Rightarrow> Access \<Rightarrow> Context \<Rightarrow> 'p
      \<Rightarrow> (EntityReferencePagerInterfacePtr, 'p) BatchRun"
  plugin_getWithRelationships ::
    "EntityReference \<Rightarrow> TraitsDatas \<Rightarrow> TraitSet \<Rightarrow> nat \<Rightarrow> Access \<Rightarrow> Context \<Rightarrow> 'p
      \<Rightarrow> (EntityReferencePagerInterfacePtr, 'p) BatchRun"
  plugin_preflight ::
    "EntityReferences \<Rightarrow> TraitsDatas \<Rightarrow> Access \<Rightarrow> Context \<Rightarrow> 'p \<Rightarrow> (EntityReference, 'p) BatchRun"
  plugin_register ::
    "EntityReferences \<Rightarrow> TraitsDatas \<Rightarrow> Access \<Rightarrow> Context \<Rightarrow> 'p \<Rightarrow> (EntityReference, 'p) BatchRun"

text \<open>
  The host session carries the logger that the host supplies: the messages it has
  received, oldest first, and its behaviour, which is whether, having received those, it
  throws on a further message. Like a plugin method, a call of the logger may throw.
\<close>

record HostSession =
  received :: "LogMessage list"
  loggerRaises :: "LogMessage list \<Rightarrow> LogMessage \<Rightarrow> exception option"

text \<open>
  The facade: the plugin object it holds (its current state), the host session, the
  cached prefix, and the record of interactions.
\<close>

record 'p Manager =
  managerInterface :: 'p
  hostSession :: HostSession
  entityReferencePrefix :: "Str option"
  interactions :: "Event list"

definition callPlugin :: "Method \<Rightarrow> ('r, 'p) action \<Rightarrow> ('r, 'p Manager) action" where
  "callPlugin meth f m =
     (case f (managerInterface m) of
        (r, p) \<Rightarrow> (r, m\<lparr>managerInterface := p, interactions := interactions m @ [PluginCall meth]\<rparr>))"

text \<open>
  A call \<open>hostSession_->logger()->debugApi(..)\<close> or \<open>->warning(..)\<close>: the logger
  receives the message and returns, or throws.
\<close>

definition logger :: "LogMessage \<Rightarrow> (unit, 'p Manager) action" where
  "logger msg m =
     (let session = hostSession m;
          m1 = m\<lparr>hostSession := session\<lparr>received := received session @ [msg]\<rparr>\<rparr>
      in case loggerRaises session (received session) msg of
           Some e \<Rightarrow> (Inl e, m1)
         | None \<Rightarrow> (Inr (), m1))"

text \<open>
  Callbacks act on the variables they capture by reference (\<open>'a\<close>); for a callback
  supplied by the host that is the host's own state.
\<close>

type_synonym ('v, 'a) SuccessCallbackFn = "nat \<Rightarrow> 'v \<Rightarrow> (unit, 'a) action"
type_synonym 'a BatchElementErrorCallback = "nat \<Rightarrow> BatchElementError \<Rightarrow> (unit, 'a) action"

fun invokeCallbacks ::
  "('p \<times> 'v Invocation) list \<Rightarrow> ('v, 'a) SuccessCallbackFn \<Rightarrow> 'a BatchElementErrorCallback
    \<Rightarrow> (unit, 'p Manager \<times> 'a) action" where
  "invokeCallbacks [] successCallback errorCallback (m, env) = (Inr (), (m, env))"
| "invokeCallbacks ((p, InvokeSuccess index v) # rest) successCallback errorCallback (m, env) =
     (let m1 = m\<lparr>managerInterface := p, interactions := interactions m @ [SuccessCallback index]\<rparr>
      in case successCallback index v env of
           (Inl e, env1) \<Rightarrow> (Inl e, (m1, env1))
         | (Inr u, env1) \<Rightarrow> invokeCallbacks rest successCallback errorCallback (m1, env1))"
| "invokeCallbacks ((p, InvokeError index err) # rest) successCallback errorCallback (m, env) =
     (let m1 = m\<lparr>managerInterface := p, interactions := interactions m @ [ErrorCallback index err]\<rparr>
      in case errorCallback index err env of
           (Inl e, env1) \<Rightarrow> (Inl e, (m1, env1))
         | (Inr u, env1) \<Rightarrow> invokeCallbacks rest successCallback errorCallback (m1, env1))"

definition callPluginBatch ::
  "Method \<Rightarrow> ('p \<Rightarrow> ('v, 'p) BatchRun) \<Rightarrow> ('v, 'a) SuccessCallbackFn \<Rightarrow> 'a BatchElementErrorCallback
    \<Rightarrow> (unit, 'p Manager \<times> 'a) action" where
  "callPluginBatch meth f successCallback errorCallback s =
     (case s of (m, env) \<Rightarrow>
        (case f (managerInterface m) of (invocations, ending, pfinal) \<Rightarrow>
           (case invokeCallbacks invocations successCallback errorCallback
                   (m\<lparr>interactions := interactions m @ [PluginCall meth]\<rparr>, env) of
              (Inl e, s1) \<Rightarrow> (Inl e, s1)
            | (Inr u, (m1, env1)) \<Rightarrow> (ending, (m1\<lparr>managerInterface := pfinal\<rparr>, env1)))))"

subsection \<open>Library functions\<close>

text \<open>
  \<open>std::string::rfind(str, pos)\<close>: the last position \<open>i \<le> pos\<close> at which \<open>str\<close> occurs in
  the string, \<open>None\<close> for \<open>npos\<close>.
\<close>

definition occursAt :: "Str \<Rightarrow> Str \<Rightarrow> nat \<Rightarrow> bool" where
  "occursAt s t i \<longleftrightarrow> i + length t \<le> length s \<and> take (length t) (drop i s) = t"

fun rfindFrom :: "Str \<Rightarrow> Str \<Rightarrow> nat \<Rightarrow> nat option" where
  "rfindFrom s t 0 = (if occursAt s t 0 then Some 0 else None)"
| "rfindFrom s t (Suc i) = (if occursAt s t (Suc i) then Some (Suc i) else rfindFrom s t i)"

definition rfind :: "Str \<Rightarrow> Str \<Rightarrow> nat \<Rightarrow> nat option" where
  "rfind s t pos =
     (if length s < length t then None else rfindFrom s t (min pos (length s - length t)))"

subsection \<open>Reference classification and construction\<close>

definition isEntityReferenceString :: "'p ManagerInterface \<Rightarrow> Str \<Rightarrow> (bool, 'p Manager) action" where
  "isEntityReferenceString mi someString m =
     (case entityReferencePrefix m of
        None \<Rightarrow>
          callPlugin (M_isEntityReferenceString someString)
            (plugin_isEntityReferenceString mi someString) m
      | Some pre \<Rightarrow> (Inr (rfind someString pre 0 \<noteq> None), m))"

definition kCreateEntityReferenceErrorMessage :: Str where
  "kCreateEntityReferenceErrorMessage = ''Invalid entity reference: ''"

definition createEntityReference ::
  "'p ManagerInterface \<Rightarrow> Str \<Rightarrow> (EntityReference, 'p Manager) action" where
  "createEntityReference mi entityReferenceString m =
     (case isEntityReferenceString mi entityReferenceString m of
        (Inl e, m1) \<Rightarrow> (Inl e, m1)
      | (Inr b, m1) \<Rightarrow>
          if \<not> b
          then (Inl (InputValidationException
                  (kCreateEntityReferenceErrorMessage @ entityReferenceString)), m1)
          else (Inr (EntityReference entityReferenceString), m1))"

definition createEntityReferenceIfValid ::
  "'p ManagerInterface \<Rightarrow> Str \<Rightarrow> (EntityReference option, 'p Manager) action" where
  "createEntityReferenceIfValid mi entityReferenceString m =
     (case isEntityReferenceString mi entityReferenceString m of
        (Inl e, m1) \<Rightarrow> (Inl e, m1)
      | (Inr b, m1) \<Rightarrow>
          if \<not> b then (Inr None, m1)
          else (Inr (Some (EntityReference entityReferenceString)), m1))"

subsection \<open>More library functions\<close>

text \<open>\<open>std::to_string\<close> of an unsigned value: its decimal digits.\<close>

definition digit :: "nat \<Rightarrow> char" where
  "digit d = ''0123456789'' ! d"

function to_string :: "nat \<Rightarrow> Str" where
  "to_string n = (if n < 10 then [digit n] else to_string (n div 10) @ [digit (n mod 10)])"
  by pat_completeness auto
termination
  by (relation "measure id") auto

declare to_string.simps [simp del]

text \<open>\<open>fmt::join\<close>: the elements with the separator between neighbours.\<close>

fun join :: "Str list \<Rightarrow> Str \<Rightarrow> Str" where
  "join [] sep = []"
| "join [x] sep = x"
| "join (x # y # ys) sep = x @ sep @ join (y # ys) sep"

subsection \<open>Capability verification and the prefix from the info dictionary\<close>

definition kRequiredCapabilities :: "Capability list" where
  "kRequiredCapabilities =
     [kEntityReferenceIdentification, kManagementPolicyQueries, kEntityTraitIntrospection]"

text \<open>
  The loop over \<open>kRequiredCapabilities\<close>. The table \<open>ManagerInterface::kCapabilityNames\<close>
  is declared outside the sources and is a parameter.
\<close>

fun collectMissing ::
  "'p ManagerInterface \<Rightarrow> (Capability \<Rightarrow> Str) \<Rightarrow> Capability list \<Rightarrow> Str list
    \<Rightarrow> (Str list, 'p Manager) action" where
  "collectMissing mi kCapabilityNames [] missingCapabilities m = (Inr missingCapabilities, m)"
| "collectMissing mi kCapabilityNames (capability # rest) missingCapabilities m =
     (case callPlugin (M_hasCapability capability) (plugin_hasCapability mi capability) m of
        (Inl e, m1) \<Rightarrow> (Inl e, m1)
      | (Inr has, m1) \<Rightarrow>
          collectMissing mi kCapabilityNames rest
            (if \<not> has then missingCapabilities @ [kCapabilityNames capability]
             else missingCapabilities) m1)"

definition missingCapabilitiesMessage :: "Identifier \<Rightarrow> Str list \<Rightarrow> Str" where
  "missingCapabilitiesMessage ident missingCapabilities =
     ''Manager implementation for '' @ [CHR 0x27] @ ident @ [CHR 0x27]
       @ '' does not support the required capabilities: '' @ join missingCapabilities '', ''"

definition verifyRequiredCapabilities ::
  "'p ManagerInterface \<Rightarrow> (Capability \<Rightarrow> Str) \<Rightarrow> (unit, 'p Manager) action" where
  "verifyRequiredCapabilities mi kCapabilityNames m =
     (case collectMissing mi kCapabilityNames kRequiredCapabilities [] m of
        (Inl e, m1) \<Rightarrow> (Inl e, m1)
      | (Inr missingCapabilities, m1) \<Rightarrow>
          if missingCapabilities = [] then (Inr (), m1)
          else (case callPlugin M_identifier (plugin_identifier mi) m1 of
                  (Inl e, m2) \<Rightarrow> (Inl e, m2)
                | (Inr ident, m2) \<Rightarrow>
                    (Inl (ConfigurationException
                            (missingCapabilitiesMessage ident missingCapabilities)), m2)))"

definition prefixProvidedMessage :: "Str \<Rightarrow> Str" where
  "prefixProvidedMessage pre =
     ''Entity reference prefix '' @ [CHR 0x27] @ pre @ [CHR 0x27]
       @ '' provided by manager'' @ [CHR 0x27] @ ''s info() dict. Subsequent''
       @ '' calls to isEntityReferenceString will use this prefix rather than call the''
       @ '' manager'' @ [CHR 0x27] @ ''s implementation.''"

text \<open>
  The key \<open>constants::kInfoKey_EntityReferencesMatchPrefix\<close> is declared outside the
  sources and is a parameter.
\<close>

definition kInvalidPrefixTypeMessage :: Str where
  "kInvalidPrefixTypeMessage =
     ''Entity reference prefix given but is an invalid type: should be a string.''"

definition entityReferencePrefixFromInfo ::
  "Str \<Rightarrow> InfoDictionary \<Rightarrow> (Str option, 'p Manager) action" where
  "entityReferencePrefixFromInfo kInfoKey_EntityReferencesMatchPrefix info m =
     (case info kInfoKey_EntityReferencesMatchPrefix of
        Some v \<Rightarrow>
          (case v of
             InfoStr pre \<Rightarrow>
               (case logger (DebugApi (prefixProvidedMessage pre)) m of
                  (Inl e, m1) \<Rightarrow> (Inl e, m1)
                | (Inr u, m1) \<Rightarrow> (Inr (Some pre), m1))
           | _ \<Rightarrow>
               (case logger (Warning kInvalidPrefixTypeMessage) m of
                  (Inl e, m1) \<Rightarrow> (Inl e, m1)
                | (Inr u, m1) \<Rightarrow> (Inr None, m1)))
      | None \<Rightarrow> (Inr None, m))"

subsection \<open>Pass-through methods and initialisation\<close>

text \<open>\<open>Manager::identifier\<close>; the bare name is reserved in Isabelle.\<close>

definition Manager_identifier :: "'p ManagerInterface \<Rightarrow> (Identifier, 'p Manager) action" where
  "Manager_identifier mi = callPlugin M_identifier (plugin_identifier mi)"

definition displayName :: "'p ManagerInterface \<Rightarrow> (Str, 'p Manager) action" where
  "displayName mi = callPlugin M_displayName (plugin_displayName mi)"

definition hasCapability :: "'p ManagerInterface \<Rightarrow> Capability \<Rightarrow> (bool, 'p Manager) action" where
  "hasCapability mi capability =
     callPlugin (M_hasCapability capability) (plugin_hasCapability mi capability)"

definition info :: "'p ManagerInterface \<Rightarrow> (InfoDictionary, 'p Manager) action" where
  "info mi = callPlugin M_info (plugin_info mi)"

definition updateTerminology :: "'p ManagerInterface \<Rightarrow> StrMap \<Rightarrow> (StrMap, 'p Manager) action" where
  "updateTerminology mi terms = callPlugin M_updateTerminology (plugin_updateTerminology mi terms)"

definition settings :: "'p ManagerInterface \<Rightarrow> (InfoDictionary, 'p Manager) action" where
  "settings mi = callPlugin M_settings (plugin_settings mi)"

definition initialize ::
  "'p ManagerInterface \<Rightarrow> (Capability \<Rightarrow> Str) \<Rightarrow> Str \<Rightarrow> InfoDictionary \<Rightarrow> (unit, 'p Manager) action" where
  "initialize mi kCapabilityNames kInfoKey_EntityReferencesMatchPrefix managerSettings m =
     (case callPlugin M_initialize (plugin_initialize mi managerSettings) m of
        (Inl e, m1) \<Rightarrow> (Inl e, m1)
      | (Inr u, m1) \<Rightarrow>
          (case verifyRequiredCapabilities mi kCapabilityNames m1 of
             (Inl e, m2) \<Rightarrow> (Inl e, m2)
           | (Inr u, m2) \<Rightarrow>
               (case callPlugin M_info (plugin_info mi) m2 of
                  (Inl e, m3) \<Rightarrow> (Inl e, m3)
                | (Inr infoDict, m3) \<Rightarrow>
                    (case entityReferencePrefixFromInfo kInfoKey_EntityReferencesMatchPrefix
                            infoDict m3 of
                       (Inl e, m4) \<Rightarrow> (Inl e, m4)
                     | (Inr pre, m4) \<Rightarrow> (Inr (), m4\<lparr>entityReferencePrefix := pre\<rparr>)))))"

definition flushCaches :: "'p ManagerInterface \<Rightarrow> (unit, 'p Manager) action" where
  "flushCaches mi = callPlugin M_flushCaches (plugin_flushCaches mi)"

definition managementPolicy ::
  "'p ManagerInterface \<Rightarrow> TraitSets \<Rightarrow> Access \<Rightarrow> Context \<Rightarrow> (TraitsDatas, 'p Manager) action" where
  "managementPolicy mi traitSets policyAccess context =
     callPlugin M_managementPolicy (plugin_managementPolicy mi traitSets policyAccess context)"

subsection \<open>Contexts\<close>

text \<open>
  Modelled from the spec: \<open>TraitsData::make\<close> (TraitsData.hpp, absent) allocates an
  empty bundle, or, given a parent's bundle, an independent copy of it; copying reads
  through the parent's pointer, which must not be null.
\<close>

definition TraitsData_make :: TraitsDataPtr where
  "TraitsData_make = Some Map.empty"

definition TraitsData_make_copy :: "TraitsDataPtr \<Rightarrow> exception + TraitsDataPtr" where
  "TraitsData_make_copy other =
     (case other of None \<Rightarrow> Inl UndefinedBehaviour | Some d \<Rightarrow> Inr (Some d))"

definition createContext :: "'p ManagerInterface \<Rightarrow> (Context, 'p Manager) action" where
  "createContext mi m =
     (let context = Context_make None in
      case hasCapability mi kStatefulContexts m of
        (Inl e, m1) \<Rightarrow> (Inl e, m1)
      | (Inr stateful, m1) \<Rightarrow>
          if stateful
          then (case callPlugin M_createState (plugin_createState mi) m1 of
                  (Inl e, m2) \<Rightarrow> (Inl e, m2)
                | (Inr st, m2) \<Rightarrow>
                    (Inr (context\<lparr>managerState := st, contextLocale := TraitsData_make\<rparr>), m2))
          else (Inr (context\<lparr>contextLocale := TraitsData_make\<rparr>), m1))"

definition createChildContext :: "'p ManagerInterface \<Rightarrow> Context \<Rightarrow> (Context, 'p Manager) action" where
  "createChildContext mi parentContext m =
     (case TraitsData_make_copy (contextLocale parentContext) of
        Inl e \<Rightarrow> (Inl e, m)
      | Inr loc \<Rightarrow>
          (let context = Context_make loc in
           if managerState parentContext \<noteq> None
           then (case callPlugin M_createChildState
                        (plugin_createChildState mi (managerState parentContext)) m of
                   (Inl e, m1) \<Rightarrow> (Inl e, m1)
                 | (Inr st, m1) \<Rightarrow> (Inr (context\<lparr>managerState := st\<rparr>), m1))
           else (Inr context, m)))"

definition persistenceTokenForContext :: "'p ManagerInterface \<Rightarrow> Context \<Rightarrow> (Str, 'p Manager) action" where
  "persistenceTokenForContext mi context m =
     (if managerState context \<noteq> None
      then callPlugin M_persistenceTokenForState
             (plugin_persistenceTokenForState mi (managerState context)) m
      else (Inr [], m))"

definition contextFromPersistenceToken :: "'p ManagerInterface \<Rightarrow> Str \<Rightarrow> (Context, 'p Manager) action" where
  "contextFromPersistenceToken mi token m =
     (let context = Context_make None in
      if token \<noteq> []
      then (case callPlugin M_stateFromPersistenceToken
                   (plugin_stateFromPersistenceToken mi token) m of
              (Inl e, m1) \<Rightarrow> (Inl e, m1)
            | (Inr st, m1) \<Rightarrow> (Inr (context\<lparr>managerState := st\<rparr>), m1))
      else (Inr context, m))"

subsection \<open>Batch operations\<close>

definition entityExists ::
  "'p ManagerInterface \<Rightarrow> EntityReferences \<Rightarrow> Context \<Rightarrow> (bool, 'a) SuccessCallbackFn
    \<Rightarrow> 'a BatchElementErrorCallback \<Rightarrow> (unit, 'p Manager \<times> 'a) action" where
  "entityExists mi entityReferences context successCallback errorCallback =
     callPluginBatch M_entityExists (plugin_entityExists mi entityReferences context)
       successCallback errorCallback"

definition entityTraits ::
  "'p ManagerInterface \<Rightarrow> EntityReferences \<Rightarrow> Access \<Rightarrow> Context \<Rightarrow> (TraitSet, 'a) SuccessCallbackFn
    \<Rightarrow> 'a BatchElementErrorCallback \<Rightarrow> (unit, 'p Manager \<times> 'a) action" where
  "entityTraits mi entityReferences entityTraitsAccess context successCallback errorCallback =
     callPluginBatch M_entityTraits
       (plugin_entityTraits mi entityReferences entityTraitsAccess context)
       successCallback errorCallback"

definition resolve ::
  "'p ManagerInterface \<Rightarrow> EntityReferences \<Rightarrow> TraitSet \<Rightarrow> Access \<Rightarrow> Context
    \<Rightarrow> (TraitsDataPtr, 'a) SuccessCallbackFn \<Rightarrow> 'a BatchElementErrorCallback
    \<Rightarrow> (unit, 'p Manager \<times> 'a) action" where
  "resolve mi entityReferences traitSet resolveAccess context successCallback errorCallback =
     callPluginBatch M_resolve
       (plugin_resolve mi entityReferences traitSet resolveAccess context)
       successCallback errorCallback"

definition defaultEntityReference ::
  "'p ManagerInterface \<Rightarrow> TraitSets \<Rightarrow> Access \<Rightarrow> Context
    \<Rightarrow> (EntityReference option, 'a) SuccessCallbackFn \<Rightarrow> 'a BatchElementErrorCallback
    \<Rightarrow> (unit, 'p Manager \<times> 'a) action" where
  "defaultEntityReference mi traitSets defaultEntityAccess context successCallback errorCallback =
     callPluginBatch M_defaultEntityReference
       (plugin_defaultEntityReference mi traitSets defaultEntityAccess context)
       successCallback errorCallback"

definition getWithRelationship ::
  "'p ManagerInterface \<Rightarrow> EntityReferences \<Rightarrow> TraitsDataPtr \<Rightarrow> nat \<Rightarrow> Access \<Rightarrow> Context
    \<Rightarrow> (EntityReferencePager, 'a) SuccessCallbackFn \<Rightarrow> 'a BatchElementErrorCallback \<Rightarrow> TraitSet
    \<Rightarrow> (unit, 'p Manager \<times> 'a) action" where
  "getWithRelationship mi entityReferences relationshipTraitsData pageSize relationsAccess context
       successCallback errorCallback resultTraitSet s =
     (if pageSize = 0
      then (Inl (InputValidationException ''pageSize must be greater than zero.''), s)
      else
        (let convertingPagerSuccessCallback =
               (\<lambda>idx pagerInterface.
                  successCallback idx (EntityReferencePager_make pagerInterface))
         in callPluginBatch M_getWithRelationship
              (plugin_getWithRelationship mi entityReferences relationshipTraitsData
                 resultTraitSet pageSize relationsAccess context)
              convertingPagerSuccessCallback errorCallback s))"

definition getWithRelationships ::
  "'p ManagerInterface \<Rightarrow> EntityReference \<Rightarrow> TraitsDatas \<Rightarrow> nat \<Rightarrow> Access \<Rightarrow> Context
    \<Rightarrow> (EntityReferencePager, 'a) SuccessCallbackFn \<Rightarrow> 'a BatchElementErrorCallback \<Rightarrow> TraitSet
    \<Rightarrow> (unit, 'p Manager \<times> 'a) action" where
  "getWithRelationships mi entityReference relationshipTraitsDatas pageSize relationsAccess context
       successCallback errorCallback resultTraitSet s =
     (if pageSize = 0
      then (Inl (InputValidationException ''pageSize must be greater than zero.''), s)
      else
        (let convertingPagerSuccessCallback =
               (\<lambda>idx pagerInterface.
                  successCallback idx (EntityReferencePager_make pagerInterface))
         in callPluginBatch M_getWithRelationships
              (plugin_getWithRelationships mi entityReference relationshipTraitsDatas
                 resultTraitSet pageSize relationsAccess context)
              convertingPagerSuccessCallback errorCallback s))"

definition preflight ::
  "'p ManagerInterface \<Rightarrow> EntityReferences \<Rightarrow> TraitsDatas \<Rightarrow> Access \<Rightarrow> Context
    \<Rightarrow> (EntityReference, 'a) SuccessCallbackFn \<Rightarrow> 'a BatchElementErrorCallback
    \<Rightarrow> (unit, 'p Manager \<times> 'a) action" where
  "preflight mi entityReferences traitsHints publishingAccess context successCallback
       errorCallback s =
     (if length entityReferences \<noteq> length traitsHints
      then (Inl (InputValidationException
                   (''Parameter lists must be of the same length: ''
                      @ to_string (length entityReferences) @ '' entity references vs. ''
                      @ to_string (length traitsHints) @ '' traits hints.'')), s)
      else callPluginBatch M_preflight
             (plugin_preflight mi entityReferences traitsHints publishingAccess context)
             successCallback errorCallback s)"

definition register ::
  "'p ManagerInterface \<Rightarrow> EntityReferences \<Rightarrow> TraitsDatas \<Rightarrow> Access \<Rightarrow> Context
    \<Rightarrow> (EntityReference, 'a) SuccessCallbackFn \<Rightarrow> 'a BatchElementErrorCallback
    \<Rightarrow> (unit, 'p Manager \<times> 'a) action" where
  "register mi entityReferences entityTraitsDatas publishingAccess context successCallback
       errorCallback s =
     (if length entityReferences \<noteq> length entityTraitsDatas
      then (Inl (InputValidationException
                   (''Parameter lists must be of the same length: ''
                      @ to_string (length entityReferences) @ '' entity references vs. ''
                      @ to_string (length entityTraitsDatas) @ '' traits datas.'')), s)
      else callPluginBatch M_register
             (plugin_register mi entityReferences entityTraitsDatas publishingAccess context)
             successCallback errorCallback s)"

subsection \<open>The closures of the derived call shapes\<close>

text \<open>
  \<open>errors::createBatchElementExceptionMessage\<close> is declared in exceptionMessages.hpp,
  outside the sources, and is a parameter of the throwing shapes.
\<close>

type_synonym MessageFn = "BatchElementError \<Rightarrow> nat \<Rightarrow> EntityReference \<Rightarrow> Access \<Rightarrow> Str"

text \<open>\<open>results[index] = value\<close> on a vector: undefined when the index is out of range.\<close>

definition assignAt :: "nat \<Rightarrow> 'v \<Rightarrow> (unit, 'v list) action" where
  "assignAt index v results =
     (if index < length results then (Inr (), results[index := v])
      else (Inl UndefinedBehaviour, results))"

text \<open>
  The error callback of the plural throwing shapes; it reads \<open>entityReferences[index]\<close>,
  undefined when the index is out of range.
\<close>

definition throwForIndex ::
  "MessageFn \<Rightarrow> EntityReferences \<Rightarrow> Access \<Rightarrow> nat \<Rightarrow> BatchElementError \<Rightarrow> (unit, 'a) action" where
  "throwForIndex createBatchElementExceptionMessage entityReferences access index err env =
     (if index < length entityReferences
      then (let msg = createBatchElementExceptionMessage err index (entityReferences ! index) access
            in (Inl (BatchElementException index err msg), env))
      else (Inl UndefinedBehaviour, env))"

text \<open>The error callback of the singular throwing shapes.\<close>

definition throwForReference ::
  "MessageFn \<Rightarrow> EntityReference \<Rightarrow> Access \<Rightarrow> nat \<Rightarrow> BatchElementError \<Rightarrow> (unit, 'a) action" where
  "throwForReference createBatchElementExceptionMessage entityReference access index err env =
     (let msg = createBatchElementExceptionMessage err index entityReference access
      in (Inl (BatchElementException index err msg), env))"

text \<open>
  A \<open>std::variant<BatchElementError, V>\<close> is a sum; default-constructed it holds a
  value-initialised error. Modelled from the spec: \<open>BatchElementError\<close> is declared
  outside the sources; its value-initialised form has code zero and an empty message.
\<close>

definition defaultVariant :: "BatchElementError + 'v" where
  "defaultVariant = Inl (BatchElementError 0 [])"

text \<open>What a throwing shape returns once the batch call is over.\<close>

definition returning :: "(exception + unit) \<times> ('s \<times> 'a) \<Rightarrow> (exception + 'a) \<times> 's" where
  "returning r =
     (case r of
        (Inl e, (m, res)) \<Rightarrow> (Inl e, m)
      | (Inr u, (m, res)) \<Rightarrow> (Inr res, m))"

subsection \<open>Resolve: the four derived shapes\<close>

definition resolve_singular_except ::
  "'p ManagerInterface \<Rightarrow> MessageFn \<Rightarrow> EntityReference \<Rightarrow> TraitSet \<Rightarrow> Access \<Rightarrow> Context
    \<Rightarrow> (TraitsDataPtr, 'p Manager) action" where
  "resolve_singular_except mi createMessage entityReference traitSet resolveAccess context m =
     returning
       (resolve mi [entityReference] traitSet resolveAccess context
          (\<lambda>index data resolveResult. (Inr (), data))
          (\<lambda>index err resolveResult.
             throwForReference createMessage entityReference resolveAccess index err resolveResult)
          (m, None))"

definition resolve_singular_variant ::
  "'p ManagerInterface \<Rightarrow> EntityReference \<Rightarrow> TraitSet \<Rightarrow> Access \<Rightarrow> Context
    \<Rightarrow> (BatchElementError + TraitsDataPtr, 'p Manager) action" where
  "resolve_singular_variant mi entityReference traitSet resolveAccess context m =
     returning
       (resolve mi [entityReference] traitSet resolveAccess context
          (\<lambda>index data resolveResult. (Inr (), Inr data))
          (\<lambda>index err resolveResult. (Inr (), Inl err))
          (m, defaultVariant))"

definition resolve_multi_except ::
  "'p ManagerInterface \<Rightarrow> MessageFn \<Rightarrow> EntityReferences \<Rightarrow> TraitSet \<Rightarrow> Access \<Rightarrow> Context
    \<Rightarrow> (TraitsDataPtr list, 'p Manager) action" where
  "resolve_multi_except mi createMessage entityReferences traitSet resolveAccess context m =
     returning
       (resolve mi entityReferences traitSet resolveAccess context
          (\<lambda>index data resolveResult. assignAt index data resolveResult)
          (\<lambda>index err resolveResult.
             throwForIndex createMessage entityReferences resolveAccess index err resolveResult)
          (m, replicate (length entityReferences) None))"

definition resolve_multi_variant ::
  "'p ManagerInterface \<Rightarrow> EntityReferences \<Rightarrow> TraitSet \<Rightarrow> Access \<Rightarrow> Context
    \<Rightarrow> ((BatchElementError + TraitsDataPtr) list, 'p Manager) action" where
  "resolve_multi_variant mi entityReferences traitSet resolveAccess context m =
     returning
       (resolve mi entityReferences traitSet resolveAccess context
          (\<lambda>index data resolveResult. assignAt index (Inr data) resolveResult)
          (\<lambda>index err resolveResult. assignAt index (Inl err) resolveResult)
          (m, replicate (length entityReferences) defaultVariant))"

subsection \<open>Preflight: the four derived shapes\<close>

definition preflight_singular_except ::
  "'p ManagerInterface \<Rightarrow> MessageFn \<Rightarrow> EntityReference \<Rightarrow> TraitsDataPtr \<Rightarrow> Access \<Rightarrow> Context
    \<Rightarrow> (EntityReference, 'p Manager) action" where
  "preflight_singular_except mi createMessage entityReference traitsHint publishingAccess context m =
     returning
       (preflight mi [entityReference] [traitsHint] publishingAccess context
          (\<lambda>index preflightedRef result. (Inr (), preflightedRef))
          (\<lambda>index err result.
             throwForReference createMessage entityReference publishingAccess index err result)
          (m, EntityReference []))"

definition preflight_singular_variant ::
  "'p ManagerInterface \<Rightarrow> EntityReference \<Rightarrow> TraitsDataPtr \<Rightarrow> Access \<Rightarrow> Context
    \<Rightarrow> (BatchElementError + EntityReference, 'p Manager) action" where
  "preflight_singular_variant mi entityReference traitsHint publishingAccess context m =
     returning
       (preflight mi [entityReference] [traitsHint] publishingAccess context
          (\<lambda>index preflightedRef result. (Inr (), Inr preflightedRef))
          (\<lambda>index err result. (Inr (), Inl err))
          (m, defaultVariant))"

definition preflight_multi_except ::
  "'p ManagerInterface \<Rightarrow> MessageFn \<Rightarrow> EntityReferences \<Rightarrow> TraitsDatas \<Rightarrow> Access \<Rightarrow> Context
    \<Rightarrow> (EntityReferences, 'p Manager) action" where
  "preflight_multi_except mi createMessage entityReferences traitsHints publishingAccess context m =
     returning
       (preflight mi entityReferences traitsHints publishingAccess context
          (\<lambda>index preflightedRef results. assignAt index preflightedRef results)
          (\<lambda>index err results.
             throwForIndex createMessage entityReferences publishingAccess index err results)
          (m, replicate (length entityReferences) (EntityReference [])))"

definition preflight_multi_variant ::
  "'p ManagerInterface \<Rightarrow> EntityReferences \<Rightarrow> TraitsDatas \<Rightarrow> Access \<Rightarrow> Context
    \<Rightarrow> ((BatchElementError + EntityReference) list, 'p Manager) action" where
  "preflight_multi_variant mi entityReferences traitsHints publishingAccess context m =
     returning
       (preflight mi entityReferences traitsHints publishingAccess context
          (\<lambda>index entityReference results. assignAt index (Inr entityReference) results)
          (\<lambda>index err results. assignAt index (Inl err) results)
          (m, replicate (length entityReferences) defaultVariant))"

subsection \<open>Register: the four derived shapes\<close>

definition register_singular_except ::
  "'p ManagerInterface \<Rightarrow> MessageFn \<Rightarrow> EntityReference \<Rightarrow> TraitsDataPtr \<Rightarrow> Access \<Rightarrow> Context
    \<Rightarrow> (EntityReference, 'p Manager) action" where
  "register_singular_except mi createMessage entityReference entityTraitsData publishingAccess
       context m =
     returning
       (register mi [entityReference] [entityTraitsData] publishingAccess context
          (\<lambda>index registeredRef result. (Inr (), registeredRef))
          (\<lambda>index err result.
             throwForReference createMessage entityReference publishingAccess index err result)
          (m, EntityReference []))"

definition register_singular_variant ::
  "'p ManagerInterface \<Rightarrow> EntityReference \<Rightarrow> TraitsDataPtr \<Rightarrow> Access \<Rightarrow> Context
    \<Rightarrow> (BatchElementError + EntityReference, 'p Manager) action" where
  "register_singular_variant mi entityReference entityTraitsData publishingAccess context m =
     returning
       (register mi [entityReference] [entityTraitsData] publishingAccess context
          (\<lambda>index registeredRef result. (Inr (), Inr registeredRef))
          (\<lambda>index err result. (Inr (), Inl err))
          (m, defaultVariant))"

definition register_multi_except ::
  "'p ManagerInterface \<Rightarrow> MessageFn \<Rightarrow> EntityReferences \<Rightarrow> TraitsDatas \<Rightarrow> Access \<Rightarrow> Context
    \<Rightarrow> (EntityReferences, 'p Manager) action" where
  "register_multi_except mi createMessage entityReferences entityTraitsDatas publishingAccess
       context m =
     returning
       (register mi entityReferences entityTraitsDatas publishingAccess context
          (\<lambda>index registeredRef result. assignAt index registeredRef result)
          (\<lambda>index err result.
             throwForIndex createMessage entityReferences publishingAccess index err result)
          (m, replicate (length entityReferences) (EntityReference [])))"

definition register_multi_variant ::
  "'p ManagerInterface \<Rightarrow> EntityReferences \<Rightarrow> TraitsDatas \<Rightarrow> Access \<Rightarrow> Context
    \<Rightarrow> ((BatchElementError + EntityReference) list, 'p Manager) action" where
  "register_multi_variant mi entityReferences entityTraitsDatas publishingAccess context m =
     returning
       (register mi entityReferences entityTraitsDatas publishingAccess context
          (\<lambda>index registeredRef result. assignAt index (Inr registeredRef) result)
          (\<lambda>index err result. assignAt index (Inl err) result)
          (m, replicate (length entityReferences) defaultVariant))"

subsection \<open>The facade as a state machine\<close>

text \<open>The constructor: a facade around a plugin and a host session, nothing cached.\<close>

definition Manager_make :: "'p \<Rightarrow> HostSession \<Rightarrow> 'p Manager" where
  "Manager_make p session =
     \<lparr>managerInterface = p, hostSession = session, entityReferencePrefix = None,
      interactions = []\<rparr>"

text \<open>
  One call of a public method of the facade other than \<open>initialize\<close>, with any
  arguments: the state in which it leaves facade and host (\<open>'h\<close>, on which the
  callbacks of the batch methods act), whether it returns or throws. One rule per method.
\<close>

inductive otherCall ::
  "'p ManagerInterface \<Rightarrow> MessageFn \<Rightarrow> 'p Manager \<times> 'h \<Rightarrow> 'p Manager \<times> 'h \<Rightarrow> bool"
  for mi :: "'p ManagerInterface" and mk :: MessageFn where
    call_identifier:
     "otherCall mi mk (m, h) (snd (Manager_identifier mi m), h)"
  | call_displayName:
     "otherCall mi mk (m, h) (snd (displayName mi m), h)"
  | call_hasCapability:
     "otherCall mi mk (m, h) (snd (hasCapability mi c m), h)"
  | call_info:
     "otherCall mi mk (m, h) (snd (info mi m), h)"
  | call_updateTerminology:
     "otherCall mi mk (m, h) (snd (updateTerminology mi terms m), h)"
  | call_settings:
     "otherCall mi mk (m, h) (snd (settings mi m), h)"
  | call_flushCaches:
     "otherCall mi mk (m, h) (snd (flushCaches mi m), h)"
  | call_managementPolicy:
     "otherCall mi mk (m, h) (snd (managementPolicy mi traitSets access context m), h)"
  | call_createContext:
     "otherCall mi mk (m, h) (snd (createContext mi m), h)"
  | call_createChildContext:
     "otherCall mi mk (m, h) (snd (createChildContext mi parent m), h)"
  | call_persistenceTokenForContext:
     "otherCall mi mk (m, h) (snd (persistenceTokenForContext mi context m), h)"
  | call_contextFromPersistenceToken:
     "otherCall mi mk (m, h) (snd (contextFromPersistenceToken mi token m), h)"
  | call_isEntityReferenceString:
     "otherCall mi mk (m, h) (snd (isEntityReferenceString mi str m), h)"
  | call_createEntityReference:
     "otherCall mi mk (m, h) (snd (createEntityReference mi str m), h)"
  | call_createEntityReferenceIfValid:
     "otherCall mi mk (m, h) (snd (createEntityReferenceIfValid mi str m), h)"
  | call_entityExists:
     "otherCall mi mk (m, h) (snd (entityExists mi refs context sc ec (m, h)))"
  | call_entityTraits:
     "otherCall mi mk (m, h) (snd (entityTraits mi refs access context sc ec (m, h)))"
  | call_resolve:
     "otherCall mi mk (m, h) (snd (resolve mi refs traitSet access context sc ec (m, h)))"
  | call_resolve_singular_except:
     "otherCall mi mk (m, h)
       (snd (resolve_singular_except mi mk ref traitSet access context m), h)"
  | call_resolve_singular_variant:
     "otherCall mi mk (m, h)
       (snd (resolve_singular_variant mi ref traitSet access context m), h)"
  | call_resolve_multi_except:
     "otherCall mi mk (m, h)
       (snd (resolve_multi_except mi mk refs traitSet access context m), h)"
  | call_resolve_multi_variant:
     "otherCall mi mk (m, h)
       (snd (resolve_multi_variant mi refs traitSet access context m), h)"
  | call_defaultEntityReference:
     "otherCall mi mk (m, h)
       (snd (defaultEntityReference mi traitSets access context sc ec (m, h)))"
  | call_getWithRelationship:
     "otherCall mi mk (m, h)
       (snd (getWithRelationship mi refs relationship pageSize access context sc ec
               resultTraitSet (m, h)))"
  | call_getWithRelationships:
     "otherCall mi mk (m, h)
       (snd (getWithRelationships mi ref relationships pageSize access context sc ec
               resultTraitSet (m, h)))"
  | call_preflight:
     "otherCall mi mk (m, h) (snd (preflight mi refs hints access context sc ec (m, h)))"
  | call_preflight_singular_except:
     "otherCall mi mk (m, h)
       (snd (preflight_singular_except mi mk ref hint access context m), h)"
  | call_preflight_singular_variant:
     "otherCall mi mk (m, h)
       (snd (preflight_singular_variant mi ref hint access context m), h)"
  | call_preflight_multi_except:
     "otherCall mi mk (m, h)
       (snd (preflight_multi_except mi mk refs hints access context m), h)"
  | call_preflight_multi_variant:
     "otherCall mi mk (m, h)
       (snd (preflight_multi_variant mi refs hints access context m), h)"
  | call_register:
     "otherCall mi mk (m, h) (snd (register mi refs datas access context sc ec (m, h)))"
  | call_register_singular_except:
     "otherCall mi mk (m, h)
       (snd (register_singular_except mi mk ref data access context m), h)"
  | call_register_singular_variant:
     "otherCall mi mk (m, h)
       (snd (register_singular_variant mi ref data access context m), h)"
  | call_register_multi_except:
     "otherCall mi mk (m, h)
       (snd (register_multi_except mi mk refs datas access context m), h)"
  | call_register_multi_variant:
     "otherCall mi mk (m, h)
       (snd (register_multi_variant mi refs datas access context m), h)"

subsection \<open>What one batch call delivers\<close>

fun invocationIndex :: "'v Invocation \<Rightarrow> nat" where
  "invocationIndex (InvokeSuccess index v) = index"
| "invocationIndex (InvokeError index err) = index"

text \<open>The value or error that an invocation hands to its callback, as a variant.\<close>

fun delivered :: "'v Invocation \<Rightarrow> BatchElementError + 'v" where
  "delivered (InvokeSuccess index v) = Inr v"
| "delivered (InvokeError index err) = Inl err"

text \<open>Exactly one callback for each index below \<open>n\<close>, and none for any other.\<close>

definition oncePerIndex :: "nat \<Rightarrow> ('p \<times> 'v Invocation) list \<Rightarrow> bool" where
  "oncePerIndex n invocations \<longleftrightarrow>
     distinct (map (\<lambda>x. invocationIndex (snd x)) invocations)
     \<and> set (map (\<lambda>x. invocationIndex (snd x)) invocations) = {0..<n}"

text \<open>Writing what an invocation delivers into the slot of its index.\<close>

definition storeDelivered ::
  "'p \<times> 'v Invocation \<Rightarrow> (BatchElementError + 'v) list \<Rightarrow> (BatchElementError + 'v) list" where
  "storeDelivered x res = res[invocationIndex (snd x) := delivered (snd x)]"

subsection \<open>A stub plugin for concrete runs\<close>

text \<open>
  A deterministic plugin: it reports the given capabilities, keeps the settings it was
  initialised with as its state and returns them as its info dictionary, recognises
  references by the scheme \<open>stub://\<close>, and plays the given scripts of callback
  invocations in its batch methods.
\<close>

definition stubInterface ::
  "(Capability \<Rightarrow> bool) \<Rightarrow> TraitsDataPtr Invocation list \<Rightarrow> EntityReference Invocation list
    \<Rightarrow> InfoDictionary ManagerInterface" where
  "stubInterface caps resolveScript publishScript =
     \<lparr>plugin_identifier = (\<lambda>p. (Inr ''org.stub'', p)),
      plugin_displayName = (\<lambda>p. (Inr ''Stub'', p)),
      plugin_hasCapability = (\<lambda>c p. (Inr (caps c), p)),
      plugin_info = (\<lambda>p. (Inr p, p)),
      plugin_updateTerminology = (\<lambda>terms p. (Inr terms, p)),
      plugin_settings = (\<lambda>p. (Inr p, p)),
      plugin_initialize = (\<lambda>managerSettings p. (Inr (), managerSettings)),
      plugin_flushCaches = (\<lambda>p. (Inr (), p)),
      plugin_managementPolicy = (\<lambda>traitSets access context p. (Inr (map (\<lambda>t. None) traitSets), p)),
      plugin_createState = (\<lambda>p. (Inr (Some 0), p)),
      plugin_createChildState = (\<lambda>st p. (Inr st, p)),
      plugin_persistenceTokenForState = (\<lambda>st p. (Inr ''token'', p)),
      plugin_stateFromPersistenceToken = (\<lambda>token p. (Inr (Some (length token)), p)),
      plugin_isEntityReferenceString = (\<lambda>str p. (Inr (prefix ''stub://'' str), p)),
      plugin_entityExists = (\<lambda>refs context p. ([], Inr (), p)),
      plugin_entityTraits = (\<lambda>refs access context p. ([], Inr (), p)),
      plugin_resolve = (\<lambda>refs traitSet access context p. (map (Pair p) resolveScript, Inr (), p)),
      plugin_defaultEntityReference = (\<lambda>traitSets access context p. ([], Inr (), p)),
      plugin_getWithRelationship =
        (\<lambda>refs relationship resultTraitSet pageSize access context p. ([], Inr (), p)),
      plugin_getWithRelationships =
        (\<lambda>ref relationships resultTraitSet pageSize access context p. ([], Inr (), p)),
      plugin_preflight = (\<lambda>refs hints access context p. (map (Pair p) publishScript, Inr (), p)),
      plugin_register = (\<lambda>refs datas access context p. (map (Pair p) publishScript, Inr (), p))\<rparr>"

definition stubCapabilityNames :: "Capability \<Rightarrow> Str" where
  "stubCapabilityNames c =
     (case c of
        kEntityReferenceIdentification \<Rightarrow> ''entityReferenceIdentification''
      | kManagementPolicyQueries \<Rightarrow> ''managementPolicyQueries''
      | kEntityTraitIntrospection \<Rightarrow> ''entityTraitIntrospection''
      | kStatefulContexts \<Rightarrow> ''statefulContexts'')"

definition stubInfoKey :: Str where
  "stubInfoKey = ''entityReferencesMatchPrefix''"

definition stubMessage :: MessageFn where
  "stubMessage err index ref access =
     errorMessage err @ '' ['' @ to_string index @ ''] '' @ toString ref
       @ '' access='' @ to_string access"

text \<open>
  Fixtures: a host session whose logger never throws and one whose logger always does, a
  facade just constructed around the stub and the first of them, three references, an
  error.
\<close>

definition quietSession :: HostSession where
  "quietSession = \<lparr>received = [], loggerRaises = (\<lambda>history msg. None)\<rparr>"

definition brokenSession :: HostSession where
  "brokenSession =
     \<lparr>received = [], loggerRaises = (\<lambda>history msg. Some (OtherException ''log full''))\<rparr>"

definition freshManager :: "InfoDictionary Manager" where
  "freshManager = Manager_make Map.empty quietSession"

definition threeReferences :: EntityReferences where
  "threeReferences =
     [EntityReference ''stub://a'', EntityReference ''stub://b'', EntityReference ''stub://c'']"

definition notFound :: BatchElementError where
  "notFound = BatchElementError 1 ''not found''"

section \<open>Properties\<close>

subsection \<open>Searching from the start of a string\<close>

lemma rfind_at_start: "rfind s t 0 \<noteq> None \<longleftrightarrow> prefix t s"
proof (cases "length s < length t")
  case True
  then have "\<not> prefix t s"
    using prefix_length_le by fastforce
  with True show ?thesis by (simp add: rfind_def)
next
  case False
  then have "rfind s t 0 \<noteq> None \<longleftrightarrow> take (length t) s = t"
    by (simp add: rfind_def occursAt_def)
  also have "\<dots> \<longleftrightarrow> prefix t s"
    by (metis append_take_drop_id prefixI prefix_def append_eq_conv_conj)
  finally show ?thesis .
qed

lemma rfind_at_start_Some: "(\<exists>y. rfind s t 0 = Some y) \<longleftrightarrow> prefix t s"
  using rfind_at_start [of s t] by simp

subsection \<open>Calls that leave the prefix cache alone\<close>

lemma callPlugin_prefix:
  "callPlugin meth f m = (r, m1) \<Longrightarrow> entityReferencePrefix m1 = entityReferencePrefix m"
  by (auto simp add: callPlugin_def split: prod.splits)

lemma callPlugin_prefix_snd:
  "entityReferencePrefix (snd (callPlugin meth f m)) = entityReferencePrefix m"
  by (cases "callPlugin meth f m") (simp add: callPlugin_prefix)

lemma invokeCallbacks_prefix:
  "entityReferencePrefix (fst (snd (invokeCallbacks invs sc ec (m, env))))
     = entityReferencePrefix m"
proof (induction invs arbitrary: m env)
  case Nil
  then show ?case by simp
next
  case (Cons a invs)
  obtain p inv where a: "a = (p, inv)" by (cases a)
  show ?case
  proof (cases inv)
    case (InvokeSuccess index v)
    obtain r0 env0 where "sc index v env = (r0, env0)" by (cases "sc index v env")
    with a InvokeSuccess Cons.IH show ?thesis by (cases r0) (simp_all add: Let_def)
  next
    case (InvokeError index err)
    obtain r0 env0 where "ec index err env = (r0, env0)" by (cases "ec index err env")
    with a InvokeError Cons.IH show ?thesis by (cases r0) (simp_all add: Let_def)
  qed
qed

lemma callPluginBatch_prefix:
  "entityReferencePrefix (fst (snd (callPluginBatch meth f sc ec (m, env))))
     = entityReferencePrefix m"
proof -
  obtain invs ending pfinal where f: "f (managerInterface m) = (invs, ending, pfinal)"
    by (cases "f (managerInterface m)")
  let ?m0 = "m\<lparr>interactions := interactions m @ [PluginCall meth]\<rparr>"
  obtain r1 m1 env1 where
    inv: "invokeCallbacks invs sc ec (?m0, env) = (r1, (m1, env1))"
    by (cases "invokeCallbacks invs sc ec (?m0, env)") auto
  from invokeCallbacks_prefix [of invs sc ec ?m0 env] inv
  have "entityReferencePrefix m1 = entityReferencePrefix m" by simp
  with f inv show ?thesis by (cases r1) (simp_all add: callPluginBatch_def)
qed

lemma returning_snd: "snd (returning x) = fst (snd x)"
  by (cases x) (auto simp add: returning_def split: sum.splits)

lemma isEntityReferenceString_prefix:
  "entityReferencePrefix (snd (isEntityReferenceString mi str m)) = entityReferencePrefix m"
  by (simp add: isEntityReferenceString_def callPlugin_prefix_snd split: option.splits)

lemma createEntityReference_prefix:
  "entityReferencePrefix (snd (createEntityReference mi str m)) = entityReferencePrefix m"
  using isEntityReferenceString_prefix [of mi str m]
  by (cases "isEntityReferenceString mi str m")
     (auto simp add: createEntityReference_def split: sum.splits)

lemma createEntityReferenceIfValid_prefix:
  "entityReferencePrefix (snd (createEntityReferenceIfValid mi str m)) = entityReferencePrefix m"
  using isEntityReferenceString_prefix [of mi str m]
  by (cases "isEntityReferenceString mi str m")
     (auto simp add: createEntityReferenceIfValid_def split: sum.splits)

lemma createContext_prefix:
  "entityReferencePrefix (snd (createContext mi m)) = entityReferencePrefix m"
proof -
  obtain r1 m1 where c1: "callPlugin (M_hasCapability kStatefulContexts)
                            (plugin_hasCapability mi kStatefulContexts) m = (r1, m1)"
    by (cases "callPlugin (M_hasCapability kStatefulContexts)
                 (plugin_hasCapability mi kStatefulContexts) m")
  obtain r2 m2 where c2: "callPlugin M_createState (plugin_createState mi) m1 = (r2, m2)"
    by (cases "callPlugin M_createState (plugin_createState mi) m1")
  from callPlugin_prefix [OF c1] callPlugin_prefix [OF c2] c1 c2 show ?thesis
    by (auto simp add: createContext_def hasCapability_def Let_def split: sum.splits)
qed

lemma createChildContext_prefix:
  "entityReferencePrefix (snd (createChildContext mi parent m)) = entityReferencePrefix m"
proof -
  obtain r1 m1 where c1: "callPlugin M_createChildState
                            (plugin_createChildState mi (managerState parent)) m = (r1, m1)"
    by (cases "callPlugin M_createChildState
                 (plugin_createChildState mi (managerState parent)) m")
  from callPlugin_prefix [OF c1] c1 show ?thesis
    by (auto simp add: createChildContext_def Let_def split: sum.splits)
qed

lemma persistenceTokenForContext_prefix:
  "entityReferencePrefix (snd (persistenceTokenForContext mi ctx m)) = entityReferencePrefix m"
  by (simp add: persistenceTokenForContext_def callPlugin_prefix_snd)

lemma contextFromPersistenceToken_prefix:
  "entityReferencePrefix (snd (contextFromPersistenceToken mi token m)) = entityReferencePrefix m"
proof -
  obtain r1 m1 where c1: "callPlugin M_stateFromPersistenceToken
                            (plugin_stateFromPersistenceToken mi token) m = (r1, m1)"
    by (cases "callPlugin M_stateFromPersistenceToken
                 (plugin_stateFromPersistenceToken mi token) m")
  from callPlugin_prefix [OF c1] c1 show ?thesis
    by (auto simp add: contextFromPersistenceToken_def Let_def split: sum.splits)
qed

lemma preflight_prefix:
  "entityReferencePrefix (fst (snd (preflight mi refs hints access ctx sc ec (m, env))))
     = entityReferencePrefix m"
  by (simp add: preflight_def callPluginBatch_prefix)

lemma register_prefix:
  "entityReferencePrefix (fst (snd (register mi refs datas access ctx sc ec (m, env))))
     = entityReferencePrefix m"
  by (simp add: register_def callPluginBatch_prefix)

lemmas passThrough_defs =
  Manager_identifier_def displayName_def hasCapability_def info_def updateTerminology_def
  settings_def flushCaches_def managementPolicy_def

lemmas batch_defs =
  entityExists_def entityTraits_def resolve_def defaultEntityReference_def
  getWithRelationship_def getWithRelationships_def

lemmas shape_defs =
  resolve_singular_except_def resolve_singular_variant_def resolve_multi_except_def
  resolve_multi_variant_def preflight_singular_except_def preflight_singular_variant_def
  preflight_multi_except_def preflight_multi_variant_def register_singular_except_def
  register_singular_variant_def register_multi_except_def register_multi_variant_def

lemma otherCall_prefix:
  "otherCall mi mk s s' \<Longrightarrow> entityReferencePrefix (fst s') = entityReferencePrefix (fst s)"
  by (induction rule: otherCall.induct)
     (simp_all add: passThrough_defs batch_defs shape_defs callPlugin_prefix_snd
        callPluginBatch_prefix returning_snd isEntityReferenceString_prefix
        createEntityReference_prefix createEntityReferenceIfValid_prefix createContext_prefix
        createChildContext_prefix persistenceTokenForContext_prefix
        contextFromPersistenceToken_prefix preflight_prefix register_prefix)


lemma logger_prefix:
  "logger msg m = (r, m1) \<Longrightarrow> entityReferencePrefix m1 = entityReferencePrefix m"
  by (auto simp add: logger_def Let_def split: option.splits)

lemma entityReferencePrefixFromInfo_prefix:
  assumes "entityReferencePrefixFromInfo key infoDict m = (r, m1)"
  shows "entityReferencePrefix m1 = entityReferencePrefix m"
proof (cases "infoDict key")
  case None
  with assms show ?thesis by (simp add: entityReferencePrefixFromInfo_def)
next
  case (Some v)
  define msg where "msg = (case v of InfoStr pre \<Rightarrow> DebugApi (prefixProvidedMessage pre)
                                   | _ \<Rightarrow> Warning kInvalidPrefixTypeMessage)"
  obtain r2 m2 where lg: "logger msg m = (r2, m2)" by (cases "logger msg m")
  have "m1 = m2"
    using assms Some lg
    by (cases v; cases r2) (simp_all add: entityReferencePrefixFromInfo_def msg_def)
  with logger_prefix [OF lg] show ?thesis by simp
qed

lemma collectMissing_prefix:
  "collectMissing mi names cs missing m = (r, m1)
     \<Longrightarrow> entityReferencePrefix m1 = entityReferencePrefix m"
proof (induction cs arbitrary: missing m)
  case Nil
  then show ?case by simp
next
  case (Cons c cs)
  obtain r0 m0 where call: "callPlugin (M_hasCapability c) (plugin_hasCapability mi c) m = (r0, m0)"
    by (cases "callPlugin (M_hasCapability c) (plugin_hasCapability mi c) m")
  have same: "entityReferencePrefix m0 = entityReferencePrefix m"
    using call by (rule callPlugin_prefix)
  show ?case
  proof (cases r0)
    case (Inl e)
    with Cons.prems call same show ?thesis by simp
  next
    case (Inr has)
    with Cons.prems call have
      "collectMissing mi names cs (if \<not> has then missing @ [names c] else missing) m0 = (r, m1)"
      by simp
    from Cons.IH [OF this] same show ?thesis by simp
  qed
qed

lemma verifyRequiredCapabilities_prefix:
  assumes "verifyRequiredCapabilities mi names m = (r, m1)"
  shows "entityReferencePrefix m1 = entityReferencePrefix m"
proof -
  obtain r0 m0 where coll: "collectMissing mi names kRequiredCapabilities [] m = (r0, m0)"
    by (cases "collectMissing mi names kRequiredCapabilities [] m")
  have same: "entityReferencePrefix m0 = entityReferencePrefix m"
    using coll by (rule collectMissing_prefix)
  obtain r2 m2 where ident: "callPlugin M_identifier (plugin_identifier mi) m0 = (r2, m2)"
    by (cases "callPlugin M_identifier (plugin_identifier mi) m0")
  have same2: "entityReferencePrefix m2 = entityReferencePrefix m0"
    using ident by (rule callPlugin_prefix)
  from assms coll ident same same2 show ?thesis
    by (auto simp add: verifyRequiredCapabilities_def split: sum.splits if_splits)
qed

subsection \<open>What the capability verification answers\<close>

lemma verify_outcome:
  assumes "plugin_hasCapability mi kEntityReferenceIdentification (managerInterface m1) = (Inr b1, p1)"
    and "plugin_hasCapability mi kManagementPolicyQueries p1 = (Inr b2, p2)"
    and "plugin_hasCapability mi kEntityTraitIntrospection p2 = (Inr b3, p3)"
    and "plugin_identifier mi p3 = (Inr ident, p4)"
  shows "fst (verifyRequiredCapabilities mi names m1) =
     (let missing = map (names \<circ> fst)
                      (filter (\<lambda>(c, b). \<not> b) (zip kRequiredCapabilities [b1, b2, b3]))
      in if missing = [] then Inr ()
         else Inl (ConfigurationException
                (''Manager implementation for '' @ [CHR 0x27] @ ident @ [CHR 0x27]
                  @ '' does not support the required capabilities: '' @ join missing '', '')))"
  using assms
  by (cases b1; cases b2; cases b3)
     (simp_all add: verifyRequiredCapabilities_def kRequiredCapabilities_def callPlugin_def
        missingCapabilitiesMessage_def)

subsection \<open>Runs of callbacks: the throwing closures\<close>













subsection \<open>Runs of callbacks: the collecting closures\<close>

lemma invokeCallbacks_variant:
  "\<forall>x \<in> set invs. invocationIndex (snd x) < length env
   \<Longrightarrow> \<exists>m'. invokeCallbacks invs (\<lambda>index v res. assignAt index (Inr v) res)
              (\<lambda>index err res. assignAt index (Inl err) res) (m, env)
            = (Inr (), (m', fold storeDelivered invs env))
          \<and> entityReferencePrefix m' = entityReferencePrefix m"
proof (induction invs arbitrary: m env)
  case Nil
  then show ?case by simp
next
  case (Cons a invs)
  obtain p inv where a: "a = (p, inv)" by (cases a)
  from Cons.prems a have idx: "invocationIndex inv < length env" by simp
  from Cons.prems have rest: "\<forall>x \<in> set invs. invocationIndex (snd x) < length (storeDelivered a env)"
    by (simp add: storeDelivered_def)
  show ?case
  proof (cases inv)
    case (InvokeSuccess index v)
    let ?m1 = "m\<lparr>managerInterface := p, interactions := interactions m @ [SuccessCallback index]\<rparr>"
    from Cons.IH [OF rest, of ?m1] a InvokeSuccess idx show ?thesis
      by (simp add: Let_def assignAt_def storeDelivered_def)
  next
    case (InvokeError index err)
    let ?m1 = "m\<lparr>managerInterface := p, interactions := interactions m @ [ErrorCallback index err]\<rparr>"
    from Cons.IH [OF rest, of ?m1] a InvokeError idx show ?thesis
      by (simp add: Let_def assignAt_def storeDelivered_def)
  qed
qed

lemma fold_store_length: "length (fold storeDelivered invs env) = length env"
  by (induction invs arbitrary: env) (simp_all add: storeDelivered_def)

lemma fold_store_other:
  "j \<notin> set (map (\<lambda>x. invocationIndex (snd x)) invs) \<Longrightarrow> fold storeDelivered invs env ! j = env ! j"
  by (induction invs arbitrary: env) (auto simp add: storeDelivered_def)

lemma fold_store_nth:
  "distinct (map (\<lambda>x. invocationIndex (snd x)) invs) \<Longrightarrow> x \<in> set invs
   \<Longrightarrow> invocationIndex (snd x) < length env
   \<Longrightarrow> fold storeDelivered invs env ! invocationIndex (snd x) = delivered (snd x)"
proof (induction invs arbitrary: env)
  case Nil
  then show ?case by simp
next
  case (Cons a invs)
  show ?case
  proof (cases "x = a")
    case True
    with Cons.prems have "invocationIndex (snd x) \<notin> set (map (\<lambda>x. invocationIndex (snd x)) invs)"
      by simp
    then have "fold storeDelivered invs (storeDelivered a env) ! invocationIndex (snd x)
                 = storeDelivered a env ! invocationIndex (snd x)"
      by (rule fold_store_other)
    also have "storeDelivered a env ! invocationIndex (snd x) = delivered (snd x)"
      using True Cons.prems(3) by (simp add: storeDelivered_def)
    finally show ?thesis by simp
  next
    case False
    with Cons.prems have "x \<in> set invs" and "distinct (map (\<lambda>x. invocationIndex (snd x)) invs)"
      and "invocationIndex (snd x) < length (storeDelivered a env)"
      by (simp_all add: storeDelivered_def)
    from Cons.IH [OF this(2) this(1) this(3)] show ?thesis by simp
  qed
qed

lemma callPluginBatch_variant:
  assumes f: "f (managerInterface m) = (invs, Inr (), pfinal)"
    and once: "oncePerIndex n invs"
    and len: "length env = n"
  shows "\<exists>res m'.
           callPluginBatch meth f (\<lambda>index v res. assignAt index (Inr v) res)
             (\<lambda>index err res. assignAt index (Inl err) res) (m, env) = (Inr (), (m', res))
           \<and> length res = n
           \<and> (\<forall>x \<in> set invs. res ! invocationIndex (snd x) = delivered (snd x))"
proof -
  have inrange: "\<forall>x \<in> set invs. invocationIndex (snd x) < length env"
  proof
    fix x assume "x \<in> set invs"
    then have "invocationIndex (snd x) \<in> set (map (\<lambda>x. invocationIndex (snd x)) invs)" by simp
    also from once have "\<dots> = {0..<n}" by (simp add: oncePerIndex_def)
    finally show "invocationIndex (snd x) < length env" using len by simp
  qed
  from once have dist: "distinct (map (\<lambda>x. invocationIndex (snd x)) invs)"
    by (simp add: oncePerIndex_def)
  let ?m0 = "m\<lparr>interactions := interactions m @ [PluginCall meth]\<rparr>"
  from invokeCallbacks_variant [OF inrange, of ?m0] obtain m1 where
    run: "invokeCallbacks invs (\<lambda>index v res. assignAt index (Inr v) res)
            (\<lambda>index err res. assignAt index (Inl err) res) (?m0, env)
          = (Inr (), (m1, fold storeDelivered invs env))"
    by blast
  have "callPluginBatch meth f (\<lambda>index v res. assignAt index (Inr v) res)
          (\<lambda>index err res. assignAt index (Inl err) res) (m, env)
        = (Inr (), (m1\<lparr>managerInterface := pfinal\<rparr>, fold storeDelivered invs env))"
    using f run by (simp add: callPluginBatch_def)
  moreover have "length (fold storeDelivered invs env) = n"
    using len by (simp add: fold_store_length)
  moreover have "\<forall>x \<in> set invs. fold storeDelivered invs env ! invocationIndex (snd x) = delivered (snd x)"
    using fold_store_nth [OF dist] inrange by blast
  ultimately show ?thesis by blast
qed

lemma resolve_multi_variant_collects:
  assumes f: "plugin_resolve mi refs traitSet access ctx (managerInterface m) = (invs, Inr (), pfinal)"
    and once: "oncePerIndex (length refs) invs"
  shows "\<exists>res m'. resolve_multi_variant mi refs traitSet access ctx m = (Inr res, m')
           \<and> length res = length refs
           \<and> (\<forall>x \<in> set invs. res ! invocationIndex (snd x) = delivered (snd x))"
proof -
  have "length (replicate (length refs) (defaultVariant :: BatchElementError + _)) = length refs"
    by simp
  from callPluginBatch_variant
         [where f = "plugin_resolve mi refs traitSet access ctx" and m = m and meth = M_resolve,
          OF f once this]
  obtain res m' where
    run: "callPluginBatch M_resolve (plugin_resolve mi refs traitSet access ctx)
            (\<lambda>index v res. assignAt index (Inr v) res)
            (\<lambda>index err res. assignAt index (Inl err) res)
            (m, replicate (length refs) defaultVariant) = (Inr (), (m', res))"
    and len: "length res = length refs"
    and nth: "\<forall>x \<in> set invs. res ! invocationIndex (snd x) = delivered (snd x)"
    by blast
  from run have "resolve_multi_variant mi refs traitSet access ctx m = (Inr res, m')"
    by (simp add: resolve_multi_variant_def resolve_def returning_def)
  with len nth show ?thesis by blast
qed

lemma preflight_multi_variant_collects:
  assumes f: "plugin_preflight mi refs datas access ctx (managerInterface m) = (invs, Inr (), pfinal)"
    and once: "oncePerIndex (length refs) invs"
    and eq: "length refs = length datas"
  shows "\<exists>res m'. preflight_multi_variant mi refs datas access ctx m = (Inr res, m')
           \<and> length res = length refs
           \<and> (\<forall>x \<in> set invs. res ! invocationIndex (snd x) = delivered (snd x))"
proof -
  have "length (replicate (length refs) (defaultVariant :: BatchElementError + _)) = length refs"
    by simp
  from callPluginBatch_variant
         [where f = "plugin_preflight mi refs datas access ctx" and m = m and meth = M_preflight,
          OF f once this]
  obtain res m' where
    run: "callPluginBatch M_preflight (plugin_preflight mi refs datas access ctx)
            (\<lambda>index v res. assignAt index (Inr v) res)
            (\<lambda>index err res. assignAt index (Inl err) res)
            (m, replicate (length refs) defaultVariant) = (Inr (), (m', res))"
    and len: "length res = length refs"
    and nth: "\<forall>x \<in> set invs. res ! invocationIndex (snd x) = delivered (snd x)"
    by blast
  from run eq have "preflight_multi_variant mi refs datas access ctx m = (Inr res, m')"
    by (simp add: preflight_multi_variant_def preflight_def returning_def)
  with len nth show ?thesis by blast
qed

lemma register_multi_variant_collects:
  assumes f: "plugin_register mi refs datas access ctx (managerInterface m) = (invs, Inr (), pfinal)"
    and once: "oncePerIndex (length refs) invs"
    and eq: "length refs = length datas"
  shows "\<exists>res m'. register_multi_variant mi refs datas access ctx m = (Inr res, m')
           \<and> length res = length refs
           \<and> (\<forall>x \<in> set invs. res ! invocationIndex (snd x) = delivered (snd x))"
proof -
  have "length (replicate (length refs) (defaultVariant :: BatchElementError + _)) = length refs"
    by simp
  from callPluginBatch_variant
         [where f = "plugin_register mi refs datas access ctx" and m = m and meth = M_register,
          OF f once this]
  obtain res m' where
    run: "callPluginBatch M_register (plugin_register mi refs datas access ctx)
            (\<lambda>index v res. assignAt index (Inr v) res)
            (\<lambda>index err res. assignAt index (Inl err) res)
            (m, replicate (length refs) defaultVariant) = (Inr (), (m', res))"
    and len: "length res = length refs"
    and nth: "\<forall>x \<in> set invs. res ! invocationIndex (snd x) = delivered (snd x)"
    by blast
  from run eq have "register_multi_variant mi refs datas access ctx m = (Inr res, m')"
    by (simp add: register_multi_variant_def register_def returning_def)
  with len nth show ?thesis by blast
qed


subsection \<open>Evaluating concrete runs\<close>

lemma to_string_digit: "n < 10 \<Longrightarrow> to_string n = [digit n]"
  by (simp add: to_string.simps)

lemmas run_defs =
  callPluginBatch_def returning_def assignAt_def throwForIndex_def stubInterface_def
  freshManager_def Manager_make_def threeReferences_def Let_def

lemmas initialize_defs =
  initialize_def verifyRequiredCapabilities_def kRequiredCapabilities_def callPlugin_def
  stubInterface_def entityReferencePrefixFromInfo_def logger_def freshManager_def
  Manager_make_def quietSession_def Let_def

text \<open>
  When the logger throws, \<open>initialize\<close> throws before it assigns the cache: around the
  session whose logger always throws, a prefix offered by the info dictionary is not
  cached and the one cached before stays.
\<close>

lemma initialize_with_failing_logger:
  "fst (initialize (stubInterface (\<lambda>c. True) [] []) stubCapabilityNames stubInfoKey
          [stubInfoKey \<mapsto> InfoStr ''b:'']
          ((Manager_make Map.empty brokenSession)\<lparr>entityReferencePrefix := Some ''a:''\<rparr>))
     = Inl (OtherException ''log full'')
   \<and> entityReferencePrefix
        (snd (initialize (stubInterface (\<lambda>c. True) [] []) stubCapabilityNames stubInfoKey
                [stubInfoKey \<mapsto> InfoStr ''b:'']
                ((Manager_make Map.empty brokenSession)\<lparr>entityReferencePrefix := Some ''a:''\<rparr>)))
     = Some ''a:''"
  by (simp add: initialize_defs brokenSession_def)

subsection \<open>The claims\<close>




text \<open>
  C2. With a cached prefix, \<open>isEntityReferenceString\<close> answers whether the string starts
  with the prefix and leaves the facade as it was, so the plugin is not called. Without
  one, it answers (or throws) what the plugin's method does for that string, and exactly
  that one plugin call is recorded.
\<close>

theorem isEntityReferenceString_prefix_or_plugin:
  "(entityReferencePrefix m = Some pre \<longrightarrow>
      isEntityReferenceString mi s m = (Inr (prefix pre s), m))
   \<and> (entityReferencePrefix m = None \<longrightarrow>
      fst (isEntityReferenceString mi s m)
        = fst (plugin_isEntityReferenceString mi s (managerInterface m))
      \<and> interactions (snd (isEntityReferenceString mi s m))
        = interactions m @ [PluginCall (M_isEntityReferenceString s)])"
  by (simp add: isEntityReferenceString_def rfind_at_start_Some callPlugin_def split: prod.splits)

text \<open>A concrete run of the stub plugin that meets the hypotheses of C2.\<close>

theorem isEntityReferenceString_prefix_or_plugin_witness:
  "entityReferencePrefix (freshManager\<lparr>entityReferencePrefix := Some ''ref:''\<rparr>) = Some ''ref:''
   \<and> isEntityReferenceString (stubInterface (\<lambda>c. True) [] []) ''ref:123''
        (freshManager\<lparr>entityReferencePrefix := Some ''ref:''\<rparr>)
      = (Inr True, freshManager\<lparr>entityReferencePrefix := Some ''ref:''\<rparr>)
   \<and> isEntityReferenceString (stubInterface (\<lambda>c. True) [] []) ''oth:123''
        (freshManager\<lparr>entityReferencePrefix := Some ''ref:''\<rparr>)
      = (Inr False, freshManager\<lparr>entityReferencePrefix := Some ''ref:''\<rparr>)
   \<and> entityReferencePrefix freshManager = None
   \<and> fst (isEntityReferenceString (stubInterface (\<lambda>c. True) [] []) ''stub://a'' freshManager)
      = Inr True
   \<and> interactions
        (snd (isEntityReferenceString (stubInterface (\<lambda>c. True) [] []) ''stub://a'' freshManager))
      = [PluginCall (M_isEntityReferenceString ''stub://a'')]"
  using isEntityReferenceString_prefix_or_plugin
          [where m = "freshManager\<lparr>entityReferencePrefix := Some ''ref:''\<rparr>" and pre = "''ref:''"
             and mi = "stubInterface (\<lambda>c. True) [] []" and s = "''ref:123''"]
        isEntityReferenceString_prefix_or_plugin
          [where m = "freshManager\<lparr>entityReferencePrefix := Some ''ref:''\<rparr>" and pre = "''ref:''"
             and mi = "stubInterface (\<lambda>c. True) [] []" and s = "''oth:123''"]
        isEntityReferenceString_prefix_or_plugin
          [where m = freshManager and mi = "stubInterface (\<lambda>c. True) [] []"
             and s = "''stub://a''"]
  by (simp add: freshManager_def Manager_make_def stubInterface_def)


text \<open>
  C3. Preflight and register, in the batch shape and in both plural shapes, reject
  parallel sequences of unequal length with an \<open>InputValidationException\<close> whose message
  gives both lengths, and both relationship queries reject a page size of zero; facade,
  plugin and captured state are left exactly as they were, so no plugin method runs.
\<close>

theorem mismatched_lengths_and_zero_page_size_rejected:
  "(length refs \<noteq> length datas \<longrightarrow>
      preflight mi refs datas access ctx sc ec s
        = (Inl (InputValidationException
             (''Parameter lists must be of the same length: '' @ to_string (length refs)
                @ '' entity references vs. '' @ to_string (length datas) @ '' traits hints.'')), s)
      \<and> preflight_multi_except mi createMessage refs datas access ctx m
        = (Inl (InputValidationException
             (''Parameter lists must be of the same length: '' @ to_string (length refs)
                @ '' entity references vs. '' @ to_string (length datas) @ '' traits hints.'')), m)
      \<and> preflight_multi_variant mi refs datas access ctx m
        = (Inl (InputValidationException
             (''Parameter lists must be of the same length: '' @ to_string (length refs)
                @ '' entity references vs. '' @ to_string (length datas) @ '' traits hints.'')), m)
      \<and> register mi refs datas access ctx sc ec s
        = (Inl (InputValidationException
             (''Parameter lists must be of the same length: '' @ to_string (length refs)
                @ '' entity references vs. '' @ to_string (length datas) @ '' traits datas.'')), s)
      \<and> register_multi_except mi createMessage refs datas access ctx m
        = (Inl (InputValidationException
             (''Parameter lists must be of the same length: '' @ to_string (length refs)
                @ '' entity references vs. '' @ to_string (length datas) @ '' traits datas.'')), m)
      \<and> register_multi_variant mi refs datas access ctx m
        = (Inl (InputValidationException
             (''Parameter lists must be of the same length: '' @ to_string (length refs)
                @ '' entity references vs. '' @ to_string (length datas) @ '' traits datas.'')), m))
   \<and> getWithRelationship mi refs relationship 0 access ctx psc ec resultTraitSet s
        = (Inl (InputValidationException ''pageSize must be greater than zero.''), s)
   \<and> getWithRelationships mi ref relationships 0 access ctx psc ec resultTraitSet s
        = (Inl (InputValidationException ''pageSize must be greater than zero.''), s)"
  by (simp add: preflight_def register_def preflight_multi_except_def
        preflight_multi_variant_def register_multi_except_def register_multi_variant_def
        getWithRelationship_def getWithRelationships_def returning_def)

text \<open>A concrete run of the stub plugin that meets the hypotheses of C3.\<close>

theorem mismatched_lengths_and_zero_page_size_rejected_witness:
  "length [EntityReference ''stub://a''] \<noteq> length ([] :: TraitsDatas)
   \<and> preflight_multi_variant (stubInterface (\<lambda>c. True) [] []) [EntityReference ''stub://a''] []
        0 (Context_make None) freshManager
       = (Inl (InputValidationException
            ''Parameter lists must be of the same length: 1 entity references vs. 0 traits hints.''),
          freshManager)
   \<and> register_multi_except (stubInterface (\<lambda>c. True) [] []) stubMessage
        [EntityReference ''stub://a''] [] 0 (Context_make None) freshManager
       = (Inl (InputValidationException
            ''Parameter lists must be of the same length: 1 entity references vs. 0 traits datas.''),
          freshManager)
   \<and> getWithRelationship (stubInterface (\<lambda>c. True) [] []) threeReferences None 0 0
        (Context_make None) (\<lambda>idx pager h. (Inr (), h)) (\<lambda>idx err h. (Inr (), h)) {}
        (freshManager, ())
       = (Inl (InputValidationException ''pageSize must be greater than zero.''),
          (freshManager, ()))"
  using mismatched_lengths_and_zero_page_size_rejected
          [where refs = "[EntityReference ''stub://a'']" and datas = "[]"
             and mi = "stubInterface (\<lambda>c. True) [] []" and access = 0
             and ctx = "Context_make None" and m = freshManager
             and createMessage = stubMessage and relationship = None
             and psc = "\<lambda>idx pager h. (Inr (), h)" and ec = "\<lambda>idx err h. (Inr (), h)"
             and resultTraitSet = "{}" and s = "(freshManager, ())"]
       mismatched_lengths_and_zero_page_size_rejected
          [where refs = threeReferences and datas = "[]"
             and mi = "stubInterface (\<lambda>c. True) [] []" and access = 0
             and ctx = "Context_make None" and m = freshManager
             and createMessage = stubMessage and relationship = None
             and psc = "\<lambda>idx pager h. (Inr (), h)" and ec = "\<lambda>idx err h. (Inr (), h)"
             and resultTraitSet = "{}" and s = "(freshManager, ())"]
  by (simp add: to_string_digit digit_def)


text \<open>
  C4. Let the plugin's initialisation return, and let it answer the three capability
  queries, asked in the fixed order, with \<open>b1\<close>, \<open>b2\<close>, \<open>b3\<close>. If some answer is
  negative, \<open>initialize\<close> throws a \<open>ConfigurationException\<close> whose message holds the
  plugin's identifier and the names of all capabilities answered negatively, in that
  order, joined by a comma and a space. If none is, the verification returns.
\<close>

theorem missing_capabilities_all_named:
  assumes "plugin_initialize mi managerSettings (managerInterface m) = (Inr (), p0)"
    and "plugin_hasCapability mi kEntityReferenceIdentification p0 = (Inr b1, p1)"
    and "plugin_hasCapability mi kManagementPolicyQueries p1 = (Inr b2, p2)"
    and "plugin_hasCapability mi kEntityTraitIntrospection p2 = (Inr b3, p3)"
    and "plugin_identifier mi p3 = (Inr ident, p4)"
    and "missing = map (names \<circ> fst)
                     (filter (\<lambda>(c, b). \<not> b) (zip kRequiredCapabilities [b1, b2, b3]))"
  shows "(missing \<noteq> [] \<longrightarrow>
            fst (initialize mi names key managerSettings m) =
              Inl (ConfigurationException
                (''Manager implementation for '' @ [CHR 0x27] @ ident @ [CHR 0x27]
                  @ '' does not support the required capabilities: '' @ join missing '', '')))
       \<and> (missing = [] \<longrightarrow>
            fst (verifyRequiredCapabilities mi names
                   (snd (callPlugin M_initialize (plugin_initialize mi managerSettings) m)))
              = Inr ())"
proof -
  obtain m1 where call: "callPlugin M_initialize (plugin_initialize mi managerSettings) m = (Inr (), m1)"
    and st: "managerInterface m1 = p0"
    using assms(1) by (simp add: callPlugin_def)
  have v: "fst (verifyRequiredCapabilities mi names m1) =
     (if missing = [] then Inr ()
         else Inl (ConfigurationException
                (''Manager implementation for '' @ [CHR 0x27] @ ident @ [CHR 0x27]
                  @ '' does not support the required capabilities: '' @ join missing '', '')))"
    using verify_outcome [of mi m1 b1 p1 b2 p2 b3 p3 ident p4 names] assms(2-6) st
    by (simp add: Let_def)
  have i: "fst (initialize mi names key managerSettings m) = Inl e"
    if "fst (verifyRequiredCapabilities mi names m1) = Inl e" for e
  proof -
    from that obtain m2 where "verifyRequiredCapabilities mi names m1 = (Inl e, m2)"
      by (cases "verifyRequiredCapabilities mi names m1") simp
    with call show ?thesis by (simp add: initialize_def)
  qed
  have s: "snd (callPlugin M_initialize (plugin_initialize mi managerSettings) m) = m1"
    using call by simp
  show ?thesis
    unfolding s using v i by simp
qed

text \<open>A concrete run of the stub plugin that meets the hypotheses of C4.\<close>

theorem missing_capabilities_all_named_witness:
  "plugin_initialize (stubInterface (\<lambda>c. c = kManagementPolicyQueries) [] []) Map.empty
     (managerInterface freshManager) = (Inr (), Map.empty)
   \<and> plugin_hasCapability (stubInterface (\<lambda>c. c = kManagementPolicyQueries) [] [])
       kEntityReferenceIdentification Map.empty = (Inr False, Map.empty)
   \<and> plugin_hasCapability (stubInterface (\<lambda>c. c = kManagementPolicyQueries) [] [])
       kManagementPolicyQueries Map.empty = (Inr True, Map.empty)
   \<and> plugin_hasCapability (stubInterface (\<lambda>c. c = kManagementPolicyQueries) [] [])
       kEntityTraitIntrospection Map.empty = (Inr False, Map.empty)
   \<and> plugin_identifier (stubInterface (\<lambda>c. c = kManagementPolicyQueries) [] []) Map.empty
       = (Inr ''org.stub'', Map.empty)
   \<and> fst (initialize (stubInterface (\<lambda>c. c = kManagementPolicyQueries) [] [])
            stubCapabilityNames stubInfoKey Map.empty freshManager)
       = Inl (ConfigurationException
           (''Manager implementation for '' @ [CHR 0x27] @ ''org.stub'' @ [CHR 0x27]
              @ '' does not support the required capabilities: ''
              @ ''entityReferenceIdentification, entityTraitIntrospection''))
   \<and> fst (verifyRequiredCapabilities (stubInterface (\<lambda>c. True) [] []) stubCapabilityNames
            (snd (callPlugin M_initialize
                    (plugin_initialize (stubInterface (\<lambda>c. True) [] []) Map.empty)
                    freshManager)))
       = Inr ()"
proof -
  let ?mi = "stubInterface (\<lambda>c. c = kManagementPolicyQueries) [] []"
  let ?all = "stubInterface (\<lambda>c. True) [] []"
  have i: "plugin_initialize ?mi Map.empty (managerInterface freshManager) = (Inr (), Map.empty)"
    and c1: "plugin_hasCapability ?mi kEntityReferenceIdentification Map.empty
               = (Inr False, Map.empty)"
    and c2: "plugin_hasCapability ?mi kManagementPolicyQueries Map.empty = (Inr True, Map.empty)"
    and c3: "plugin_hasCapability ?mi kEntityTraitIntrospection Map.empty
               = (Inr False, Map.empty)"
    and n: "plugin_identifier ?mi Map.empty = (Inr ''org.stub'', Map.empty)"
    by (simp_all add: stubInterface_def)
  have i': "plugin_initialize ?all Map.empty (managerInterface freshManager) = (Inr (), Map.empty)"
    and c1': "plugin_hasCapability ?all kEntityReferenceIdentification Map.empty
               = (Inr True, Map.empty)"
    and c2': "plugin_hasCapability ?all kManagementPolicyQueries Map.empty = (Inr True, Map.empty)"
    and c3': "plugin_hasCapability ?all kEntityTraitIntrospection Map.empty
               = (Inr True, Map.empty)"
    and n': "plugin_identifier ?all Map.empty = (Inr ''org.stub'', Map.empty)"
    by (simp_all add: stubInterface_def)
  from missing_capabilities_all_named [OF i c1 c2 c3 n refl, of stubCapabilityNames stubInfoKey]
    missing_capabilities_all_named [OF i' c1' c2' c3' n' refl, of stubCapabilityNames stubInfoKey]
    i c1 c2 c3 n
  show ?thesis
    by (simp add: kRequiredCapabilities_def stubCapabilityNames_def)
qed


text \<open>
  C5 as stated does not hold. With no entity reference and one traits hint the plugin's
  script of no callbacks is, vacuously, one callback per index, yet the plural variant
  shape of preflight throws the \<open>InputValidationException\<close> of the length check.
\<close>

theorem plural_variant_never_throws_counterexample:
  "plugin_preflight (stubInterface (\<lambda>c. True) [] []) [] [None] 0 (Context_make None)
     (managerInterface freshManager) = ([], Inr (), Map.empty)
   \<and> oncePerIndex (length ([] :: EntityReferences))
        ([] :: (InfoDictionary \<times> EntityReference Invocation) list)
   \<and> fst (preflight_multi_variant (stubInterface (\<lambda>c. True) [] []) [] [None] 0
            (Context_make None) freshManager)
       = Inl (InputValidationException
           ''Parameter lists must be of the same length: 0 entity references vs. 1 traits hints.'')"
  by (simp add: preflight_multi_variant_def preflight_def run_defs oncePerIndex_def
        to_string_digit digit_def)

text \<open>
  C5 (as amended). In the plural variant shapes, when the plugin's batch method is given
  sequences of equal length, invokes exactly one callback for each index of the input and
  returns normally, the call returns a sequence as long as the input whose element at each
  index is the value, or the error, that was handed to the callback for that index.
\<close>

theorem plural_variant_shapes_collect:
  "(\<forall>invs pfinal.
      plugin_resolve mi refs traitSet access ctx (managerInterface m) = (invs, Inr (), pfinal)
      \<and> oncePerIndex (length refs) invs
      \<longrightarrow> (\<exists>res m'. resolve_multi_variant mi refs traitSet access ctx m = (Inr res, m')
             \<and> length res = length refs
             \<and> (\<forall>x \<in> set invs. res ! invocationIndex (snd x) = delivered (snd x))))
   \<and> (\<forall>invs pfinal.
      length refs = length datas
      \<and> plugin_preflight mi refs datas access ctx (managerInterface m) = (invs, Inr (), pfinal)
      \<and> oncePerIndex (length refs) invs
      \<longrightarrow> (\<exists>res m'. preflight_multi_variant mi refs datas access ctx m = (Inr res, m')
             \<and> length res = length refs
             \<and> (\<forall>x \<in> set invs. res ! invocationIndex (snd x) = delivered (snd x))))
   \<and> (\<forall>invs pfinal.
      length refs = length datas
      \<and> plugin_register mi refs datas access ctx (managerInterface m) = (invs, Inr (), pfinal)
      \<and> oncePerIndex (length refs) invs
      \<longrightarrow> (\<exists>res m'. register_multi_variant mi refs datas access ctx m = (Inr res, m')
             \<and> length res = length refs
             \<and> (\<forall>x \<in> set invs. res ! invocationIndex (snd x) = delivered (snd x))))"
  using resolve_multi_variant_collects [of mi refs traitSet access ctx m]
    preflight_multi_variant_collects [of mi refs datas access ctx m]
    register_multi_variant_collects [of mi refs datas access ctx m]
  by blast

text \<open>A concrete run of the stub plugin that meets the hypotheses of C5.\<close>

theorem plural_variant_shapes_collect_witness:
  "plugin_resolve
     (stubInterface (\<lambda>c. True)
        [InvokeSuccess 0 None, InvokeError 1 notFound, InvokeSuccess 2 (Some Map.empty)] [])
     threeReferences {} 0 (Context_make None) (managerInterface freshManager)
     = (map (Pair Map.empty)
          [InvokeSuccess 0 None, InvokeError 1 notFound, InvokeSuccess 2 (Some Map.empty)],
        Inr (), Map.empty)
   \<and> oncePerIndex (length threeReferences)
        (map (Pair (Map.empty :: InfoDictionary))
           [InvokeSuccess 0 None, InvokeError 1 notFound, InvokeSuccess 2 (Some Map.empty)])
   \<and> fst (resolve_multi_variant
            (stubInterface (\<lambda>c. True)
               [InvokeSuccess 0 None, InvokeError 1 notFound, InvokeSuccess 2 (Some Map.empty)] [])
            threeReferences {} 0 (Context_make None) freshManager)
       = Inr [Inr None, Inl notFound, Inr (Some Map.empty)]
   \<and> (\<exists>res m'.
        preflight_multi_variant
          (stubInterface (\<lambda>c. True) []
             [InvokeError 1 notFound, InvokeSuccess 0 (EntityReference ''stub://z'')])
          [EntityReference ''stub://a'', EntityReference ''stub://b''] [None, None] 0
          (Context_make None) freshManager = (Inr res, m')
        \<and> res = [Inr (EntityReference ''stub://z''), Inl notFound])
   \<and> (\<exists>res m'.
        register_multi_variant
          (stubInterface (\<lambda>c. True) []
             [InvokeError 1 notFound, InvokeSuccess 0 (EntityReference ''stub://z'')])
          [EntityReference ''stub://a'', EntityReference ''stub://b''] [None, None] 0
          (Context_make None) freshManager = (Inr res, m')
        \<and> res = [Inr (EntityReference ''stub://z''), Inl notFound])"
proof -
  let ?script = "[InvokeSuccess 0 None, InvokeError 1 notFound, InvokeSuccess 2 (Some Map.empty)]"
  let ?mi = "stubInterface (\<lambda>c. True) ?script []"
  let ?pscript = "[InvokeError 1 notFound, InvokeSuccess 0 (EntityReference ''stub://z'')]"
  let ?pub = "stubInterface (\<lambda>c. True) [] ?pscript"
  let ?two = "[EntityReference ''stub://a'', EntityReference ''stub://b'']"
  have run: "plugin_resolve ?mi threeReferences {} 0 (Context_make None)
               (managerInterface freshManager)
             = (map (Pair Map.empty) ?script, Inr (), Map.empty)"
    by (simp add: stubInterface_def freshManager_def Manager_make_def)
  have once: "oncePerIndex (length threeReferences)
                (map (Pair (Map.empty :: InfoDictionary)) ?script)"
    by (auto simp add: oncePerIndex_def threeReferences_def)
  have val: "fst (resolve_multi_variant ?mi threeReferences {} 0 (Context_make None) freshManager)
               = Inr [Inr None, Inl notFound, Inr (Some Map.empty)]"
    by (simp add: resolve_multi_variant_def resolve_def run_defs defaultVariant_def)
  have prun: "plugin_preflight ?pub ?two [None, None] 0 (Context_make None)
               (managerInterface freshManager)
             = (map (Pair Map.empty) ?pscript, Inr (), Map.empty)"
    and rrun: "plugin_register ?pub ?two [None, None] 0 (Context_make None)
               (managerInterface freshManager)
             = (map (Pair Map.empty) ?pscript, Inr (), Map.empty)"
    by (simp_all add: stubInterface_def freshManager_def Manager_make_def)
  have ponce: "oncePerIndex (length ?two) (map (Pair (Map.empty :: InfoDictionary)) ?pscript)"
    by (auto simp add: oncePerIndex_def)
  have eq: "length ?two = length [None, None :: TraitsDataPtr]"
    by simp
  from plural_variant_shapes_collect
         [where mi = ?mi and refs = threeReferences and traitSet = "{}" and access = 0
            and ctx = "Context_make None" and m = freshManager,
          THEN conjunct1, rule_format, of "map (Pair Map.empty) ?script" Map.empty]
       run once
  obtain res m' where
    r: "resolve_multi_variant ?mi threeReferences {} 0 (Context_make None) freshManager
          = (Inr res, m')"
    by blast
  from plural_variant_shapes_collect
         [where mi = ?pub and refs = ?two and datas = "[None, None]" and access = 0
            and ctx = "Context_make None" and m = freshManager,
          THEN conjunct2, THEN conjunct1, rule_format,
          of "map (Pair Map.empty) ?pscript" Map.empty]
       eq prun ponce
  obtain pres pm where
    p: "preflight_multi_variant ?pub ?two [None, None] 0 (Context_make None) freshManager
          = (Inr pres, pm)"
    and plen: "length pres = length ?two"
    and pnth: "\<forall>x \<in> set (map (Pair (Map.empty :: InfoDictionary)) ?pscript).
                 pres ! invocationIndex (snd x) = delivered (snd x)"
    by blast
  from plural_variant_shapes_collect
         [where mi = ?pub and refs = ?two and datas = "[None, None]" and access = 0
            and ctx = "Context_make None" and m = freshManager,
          THEN conjunct2, THEN conjunct2, rule_format,
          of "map (Pair Map.empty) ?pscript" Map.empty]
       eq rrun ponce
  obtain rres rm where
    g: "register_multi_variant ?pub ?two [None, None] 0 (Context_make None) freshManager
          = (Inr rres, rm)"
    and rlen: "length rres = length ?two"
    and rnth: "\<forall>x \<in> set (map (Pair (Map.empty :: InfoDictionary)) ?pscript).
                 rres ! invocationIndex (snd x) = delivered (snd x)"
    by blast
  have pval: "pres = [Inr (EntityReference ''stub://z''), Inl notFound]"
    using plen pnth by (auto simp add: list_eq_iff_nth_eq less_Suc_eq numeral_2_eq_2)
  have rval: "rres = [Inr (EntityReference ''stub://z''), Inl notFound]"
    using rlen rnth by (auto simp add: list_eq_iff_nth_eq less_Suc_eq numeral_2_eq_2)
  from run once val p pval g rval show ?thesis by simp
qed


text \<open>
  C6. When the classification of a string returns \<open>b\<close>: \<open>createEntityReference\<close> returns
  the reference wrapping the string if \<open>b\<close> holds and otherwise throws an
  \<open>InputValidationException\<close> whose message ends with the string;
  \<open>createEntityReferenceIfValid\<close> returns that reference, or nothing, and does not
  throw. So the second is present exactly when the first returns, with the same string.
\<close>

theorem createEntityReference_follows_classification:
  assumes "isEntityReferenceString mi s m = (Inr b, m1)"
  shows "createEntityReference mi s m =
           ((if b then Inr (EntityReference s)
             else Inl (InputValidationException (''Invalid entity reference: '' @ s))), m1)
    \<and> createEntityReferenceIfValid mi s m =
           (Inr (if b then Some (EntityReference s) else None), m1)
    \<and> ((\<exists>r. fst (createEntityReferenceIfValid mi s m) = Inr (Some r))
           \<longleftrightarrow> (\<exists>r. fst (createEntityReference mi s m) = Inr r))
    \<and> (\<forall>r1 r2. fst (createEntityReferenceIfValid mi s m) = Inr (Some r1)
           \<and> fst (createEntityReference mi s m) = Inr r2 \<longrightarrow> r1 = r2 \<and> toString r1 = s)"
  using assms
  by (cases b) (simp_all add: createEntityReference_def createEntityReferenceIfValid_def
        kCreateEntityReferenceErrorMessage_def)

text \<open>A concrete run of the stub plugin that meets the hypotheses of C6.\<close>

theorem createEntityReference_follows_classification_witness:
  "isEntityReferenceString (stubInterface (\<lambda>c. True) [] []) ''nope'' freshManager
     = (Inr False,
        snd (isEntityReferenceString (stubInterface (\<lambda>c. True) [] []) ''nope'' freshManager))
   \<and> fst (createEntityReference (stubInterface (\<lambda>c. True) [] []) ''nope'' freshManager)
       = Inl (InputValidationException ''Invalid entity reference: nope'')
   \<and> fst (createEntityReferenceIfValid (stubInterface (\<lambda>c. True) [] []) ''nope'' freshManager)
       = Inr None
   \<and> isEntityReferenceString (stubInterface (\<lambda>c. True) [] []) ''stub://a'' freshManager
     = (Inr True,
        snd (isEntityReferenceString (stubInterface (\<lambda>c. True) [] []) ''stub://a'' freshManager))
   \<and> fst (createEntityReference (stubInterface (\<lambda>c. True) [] []) ''stub://a'' freshManager)
       = Inr (EntityReference ''stub://a'')
   \<and> fst (createEntityReferenceIfValid (stubInterface (\<lambda>c. True) [] []) ''stub://a'' freshManager)
       = Inr (Some (EntityReference ''stub://a''))"
proof -
  have no: "isEntityReferenceString (stubInterface (\<lambda>c. True) [] []) ''nope'' freshManager
     = (Inr False,
        snd (isEntityReferenceString (stubInterface (\<lambda>c. True) [] []) ''nope'' freshManager))"
    by (simp add: isEntityReferenceString_def freshManager_def Manager_make_def
          stubInterface_def callPlugin_def)
  have yes: "isEntityReferenceString (stubInterface (\<lambda>c. True) [] []) ''stub://a'' freshManager
     = (Inr True,
        snd (isEntityReferenceString (stubInterface (\<lambda>c. True) [] []) ''stub://a'' freshManager))"
    by (simp add: isEntityReferenceString_def freshManager_def Manager_make_def
          stubInterface_def callPlugin_def)
  from createEntityReference_follows_classification [OF no]
    createEntityReference_follows_classification [OF yes] no yes
  show ?thesis by simp
qed


text \<open>
  C7. For a context without manager state, \<open>persistenceTokenForContext\<close> returns the
  empty string and leaves the facade as it was; \<open>contextFromPersistenceToken\<close> of the
  empty string returns a fresh context without manager state and leaves the facade as it
  was. A non-empty token makes one call of the plugin's \<open>stateFromPersistenceToken\<close>,
  whose result becomes the manager state of the context.
\<close>

theorem context_tokens_without_state:
  "(managerState ctx = None \<longrightarrow> persistenceTokenForContext mi ctx m = (Inr [], m))
   \<and> contextFromPersistenceToken mi [] m = (Inr (Context_make None), m)
   \<and> managerState (Context_make None) = None
   \<and> (token \<noteq> [] \<longrightarrow>
        interactions (snd (contextFromPersistenceToken mi token m))
          = interactions m @ [PluginCall M_stateFromPersistenceToken]
        \<and> (\<forall>st p. plugin_stateFromPersistenceToken mi token (managerInterface m) = (Inr st, p)
              \<longrightarrow> fst (contextFromPersistenceToken mi token m)
                    = Inr ((Context_make None)\<lparr>managerState := st\<rparr>)))"
  by (auto simp add: persistenceTokenForContext_def contextFromPersistenceToken_def
        Context_make_def callPlugin_def split: prod.splits sum.splits)

text \<open>A concrete run of the stub plugin that meets the hypotheses of C7.\<close>

theorem context_tokens_without_state_witness:
  "managerState (Context_make None) = None
   \<and> persistenceTokenForContext (stubInterface (\<lambda>c. True) [] []) (Context_make None) freshManager
       = (Inr [], freshManager)
   \<and> contextFromPersistenceToken (stubInterface (\<lambda>c. True) [] []) [] freshManager
       = (Inr (Context_make None), freshManager)
   \<and> ''abc'' \<noteq> []
   \<and> interactions
        (snd (contextFromPersistenceToken (stubInterface (\<lambda>c. True) [] []) ''abc'' freshManager))
       = [PluginCall M_stateFromPersistenceToken]
   \<and> plugin_stateFromPersistenceToken (stubInterface (\<lambda>c. True) [] []) ''abc''
        (managerInterface freshManager) = (Inr (Some 3), Map.empty)
   \<and> fst (contextFromPersistenceToken (stubInterface (\<lambda>c. True) [] []) ''abc'' freshManager)
       = Inr ((Context_make None)\<lparr>managerState := Some 3\<rparr>)"
proof -
  have p: "plugin_stateFromPersistenceToken (stubInterface (\<lambda>c. True) [] []) ''abc''
        (managerInterface freshManager) = (Inr (Some 3), Map.empty)"
    by (simp add: stubInterface_def freshManager_def Manager_make_def)
  from context_tokens_without_state
         [where ctx = "Context_make None" and mi = "stubInterface (\<lambda>c. True) [] []"
            and m = freshManager and token = "''abc''"] p
  show ?thesis by (simp add: freshManager_def Manager_make_def)
qed


text \<open>
  C8 as stated does not hold. The stub returns its settings as its info dictionary: a
  first \<open>initialize\<close> caches the prefix \<open>a:\<close>, a second one with other settings
  replaces it by \<open>b:\<close>, and one with settings that lack the key clears it.
\<close>

theorem prefix_cache_set_once_counterexample:
  "entityReferencePrefix
     (snd (initialize (stubInterface (\<lambda>c. True) [] []) stubCapabilityNames stubInfoKey
             [stubInfoKey \<mapsto> InfoStr ''a:''] freshManager))
     = Some ''a:''
   \<and> entityReferencePrefix
     (snd (initialize (stubInterface (\<lambda>c. True) [] []) stubCapabilityNames stubInfoKey
             [stubInfoKey \<mapsto> InfoStr ''b:'']
             (snd (initialize (stubInterface (\<lambda>c. True) [] []) stubCapabilityNames stubInfoKey
                     [stubInfoKey \<mapsto> InfoStr ''a:''] freshManager))))
     = Some ''b:''
   \<and> entityReferencePrefix
     (snd (initialize (stubInterface (\<lambda>c. True) [] []) stubCapabilityNames stubInfoKey
             Map.empty
             (snd (initialize (stubInterface (\<lambda>c. True) [] []) stubCapabilityNames stubInfoKey
                     [stubInfoKey \<mapsto> InfoStr ''a:''] freshManager))))
     = None"
  by (simp add: initialize_defs)

text \<open>
  C8 (as amended). Only \<open>initialize\<close> writes the prefix cache. Any sequence of calls of
  the other methods leaves it as it was. Each call of \<open>initialize\<close> that returns, be it
  the first call or a later one, has set the cache anew from the info dictionary that the
  plugin gave in that call: to the string under the prefix key, and to nothing when the key
  is absent or its value is not a string.
\<close>

theorem prefix_cache_written_only_by_initialize:
  "(rtranclp (otherCall mi mk) s s' \<longrightarrow>
      entityReferencePrefix (fst s') = entityReferencePrefix (fst s))
   \<and> (fst (initialize mi names key managerSettings m) = Inr () \<longrightarrow>
        (\<exists>m1 m2 infoDict m3.
           callPlugin M_initialize (plugin_initialize mi managerSettings) m = (Inr (), m1)
           \<and> verifyRequiredCapabilities mi names m1 = (Inr (), m2)
           \<and> callPlugin M_info (plugin_info mi) m2 = (Inr infoDict, m3)
           \<and> entityReferencePrefix (snd (initialize mi names key managerSettings m))
               = (case infoDict key of
                    Some (InfoStr pre) \<Rightarrow> Some pre
                  | _ \<Rightarrow> None)))"
proof -
  have others: "entityReferencePrefix (fst s') = entityReferencePrefix (fst s)"
    if "rtranclp (otherCall mi mk) s s'"
    using that by (induction rule: rtranclp_induct) (simp_all add: otherCall_prefix)
  have init: "\<exists>m1 m2 infoDict m3.
           callPlugin M_initialize (plugin_initialize mi managerSettings) m = (Inr (), m1)
           \<and> verifyRequiredCapabilities mi names m1 = (Inr (), m2)
           \<and> callPlugin M_info (plugin_info mi) m2 = (Inr infoDict, m3)
           \<and> entityReferencePrefix (snd (initialize mi names key managerSettings m))
               = (case infoDict key of
                    Some (InfoStr pre) \<Rightarrow> Some pre
                  | _ \<Rightarrow> None)"
    if ret: "fst (initialize mi names key managerSettings m) = Inr ()"
  proof -
    obtain r1 m1 where
      s1: "callPlugin M_initialize (plugin_initialize mi managerSettings) m = (r1, m1)"
      by (cases "callPlugin M_initialize (plugin_initialize mi managerSettings) m")
    obtain r2 m2 where s2: "verifyRequiredCapabilities mi names m1 = (r2, m2)"
      by (cases "verifyRequiredCapabilities mi names m1")
    obtain r3 m3 where s3: "callPlugin M_info (plugin_info mi) m2 = (r3, m3)"
      by (cases "callPlugin M_info (plugin_info mi) m2")
    from ret s1 have r1: "r1 = Inr ()"
      by (cases r1) (simp_all add: initialize_def)
    from ret s1 r1 s2 have r2: "r2 = Inr ()"
      by (cases r2) (simp_all add: initialize_def)
    from ret s1 r1 s2 r2 s3 obtain infoDict where r3: "r3 = Inr infoDict"
      by (cases r3) (simp_all add: initialize_def)
    obtain r4 m4 where s4: "entityReferencePrefixFromInfo key infoDict m3 = (r4, m4)"
      by (cases "entityReferencePrefixFromInfo key infoDict m3")
    from ret s1 r1 s2 r2 s3 r3 s4 obtain pre where r4: "r4 = Inr pre"
      by (cases r4) (simp_all add: initialize_def)
    from s4 r4 have pre: "pre = (case infoDict key of
                                   Some (InfoStr pre) \<Rightarrow> Some pre
                                 | _ \<Rightarrow> None)"
      by (auto simp add: entityReferencePrefixFromInfo_def
            split: option.splits InfoDictionaryValue.splits prod.splits sum.splits)
    from s1 r1 s2 r2 s3 r3 s4 r4 have
      "entityReferencePrefix (snd (initialize mi names key managerSettings m)) = pre"
      by (simp add: initialize_def)
    with pre s1 r1 s2 r2 s3 r3 show ?thesis by blast
  qed
  from others init show ?thesis by blast
qed

text \<open>A concrete run of the stub plugin that meets the hypotheses of C8.\<close>

theorem prefix_cache_written_only_by_initialize_witness:
  "rtranclp (otherCall (stubInterface (\<lambda>c. True) [] []) stubMessage)
     (freshManager\<lparr>entityReferencePrefix := Some ''a:''\<rparr>, ())
     (snd (resolve_multi_variant (stubInterface (\<lambda>c. True) [] []) threeReferences {} 0
             (Context_make None)
             (snd (flushCaches (stubInterface (\<lambda>c. True) [] [])
                     (freshManager\<lparr>entityReferencePrefix := Some ''a:''\<rparr>)))), ())
   \<and> entityReferencePrefix
        (snd (resolve_multi_variant (stubInterface (\<lambda>c. True) [] []) threeReferences {} 0
                (Context_make None)
                (snd (flushCaches (stubInterface (\<lambda>c. True) [] [])
                        (freshManager\<lparr>entityReferencePrefix := Some ''a:''\<rparr>)))))
       = Some ''a:''
   \<and> fst (initialize (stubInterface (\<lambda>c. True) [] []) stubCapabilityNames stubInfoKey
            [stubInfoKey \<mapsto> InfoStr ''b:'']
            (freshManager\<lparr>entityReferencePrefix := Some ''a:''\<rparr>)) = Inr ()
   \<and> (\<exists>infoDict.
        fst (callPlugin M_info (plugin_info (stubInterface (\<lambda>c. True) [] []))
               (snd (verifyRequiredCapabilities (stubInterface (\<lambda>c. True) [] [])
                       stubCapabilityNames
                       (snd (callPlugin M_initialize
                               (plugin_initialize (stubInterface (\<lambda>c. True) [] [])
                                  [stubInfoKey \<mapsto> InfoStr ''b:''])
                               (freshManager\<lparr>entityReferencePrefix := Some ''a:''\<rparr>))))))
          = Inr infoDict
        \<and> entityReferencePrefix
            (snd (initialize (stubInterface (\<lambda>c. True) [] []) stubCapabilityNames stubInfoKey
                    [stubInfoKey \<mapsto> InfoStr ''b:'']
                    (freshManager\<lparr>entityReferencePrefix := Some ''a:''\<rparr>)))
            = (case infoDict stubInfoKey of
                 Some (InfoStr pre) \<Rightarrow> Some pre
               | _ \<Rightarrow> None))
   \<and> entityReferencePrefix
        (snd (initialize (stubInterface (\<lambda>c. True) [] []) stubCapabilityNames stubInfoKey
                [stubInfoKey \<mapsto> InfoStr ''b:'']
                (freshManager\<lparr>entityReferencePrefix := Some ''a:''\<rparr>)))
       = Some ''b:''"
proof -
  let ?mi = "stubInterface (\<lambda>c. True) [] []"
  let ?m = "freshManager\<lparr>entityReferencePrefix := Some ''a:''\<rparr>"
  let ?m1 = "snd (flushCaches ?mi ?m)"
  let ?m2 = "snd (resolve_multi_variant ?mi threeReferences {} 0 (Context_make None) ?m1)"
  let ?settings = "[stubInfoKey \<mapsto> InfoStr ''b:'']"
  have one: "otherCall ?mi stubMessage (?m, ()) (?m1, ())"
    by (rule otherCall.call_flushCaches)
  have two: "otherCall ?mi stubMessage (?m1, ()) (?m2, ())"
    by (rule otherCall.call_resolve_multi_variant)
  from one two have steps: "rtranclp (otherCall ?mi stubMessage) (?m, ()) (?m2, ())"
    by (rule converse_rtranclp_into_rtranclp [OF _ r_into_rtranclp])
  have ret: "fst (initialize ?mi stubCapabilityNames stubInfoKey ?settings ?m) = Inr ()"
    by (simp add: initialize_defs)
  have new: "entityReferencePrefix
               (snd (initialize ?mi stubCapabilityNames stubInfoKey ?settings ?m)) = Some ''b:''"
    by (simp add: initialize_defs)
  from prefix_cache_written_only_by_initialize
         [where mi = ?mi and mk = stubMessage and s = "(?m, ())" and s' = "(?m2, ())",
          THEN conjunct1, rule_format] steps
  have kept: "entityReferencePrefix ?m2 = Some ''a:''"
    by (simp add: freshManager_def Manager_make_def)
  from prefix_cache_written_only_by_initialize
         [where mi = ?mi and managerSettings = ?settings and m = ?m
            and names = stubCapabilityNames and key = stubInfoKey,
          THEN conjunct2, rule_format] ret
  obtain i1 i2 infoDict i3 where
    h1: "callPlugin M_initialize (plugin_initialize ?mi ?settings) ?m = (Inr (), i1)"
    and h2: "verifyRequiredCapabilities ?mi stubCapabilityNames i1 = (Inr (), i2)"
    and h3: "callPlugin M_info (plugin_info ?mi) i2 = (Inr infoDict, i3)"
    and set: "entityReferencePrefix
                (snd (initialize ?mi stubCapabilityNames stubInfoKey ?settings ?m))
              = (case infoDict stubInfoKey of
                   Some (InfoStr pre) \<Rightarrow> Some pre
                 | _ \<Rightarrow> None)"
    by blast
  from h1 h2 h3 have
    "fst (callPlugin M_info (plugin_info ?mi)
            (snd (verifyRequiredCapabilities ?mi stubCapabilityNames
                    (snd (callPlugin M_initialize (plugin_initialize ?mi ?settings) ?m)))))
       = Inr infoDict"
    by simp
  with set steps kept ret new show ?thesis by blast
qed

text \<open>
  C9. An empty string under the prefix key of the info dictionary is what
  \<open>entityReferencePrefixFromInfo\<close> returns whenever it returns, and it returns when the
  logger does; and with the empty prefix cached every string, the empty one included, is
  classified as an entity reference, the facade staying as it was (no plugin call).
\<close>

theorem empty_prefix_accepts_every_string:
  "(infoDict k = Some (InfoStr []) \<longrightarrow>
      (\<forall>r. fst (entityReferencePrefixFromInfo k infoDict m) = Inr r \<longrightarrow> r = Some [])
      \<and> (fst (logger (DebugApi (prefixProvidedMessage [])) m) = Inr ()
           \<longrightarrow> fst (entityReferencePrefixFromInfo k infoDict m) = Inr (Some [])))
   \<and> (entityReferencePrefix m = Some [] \<longrightarrow> isEntityReferenceString mi s m = (Inr True, m))"
proof -
  obtain r1 m1 where lg: "logger (DebugApi (prefixProvidedMessage [])) m = (r1, m1)"
    by (cases "logger (DebugApi (prefixProvidedMessage [])) m")
  have "infoDict k = Some (InfoStr []) \<longrightarrow>
      (\<forall>r. fst (entityReferencePrefixFromInfo k infoDict m) = Inr r \<longrightarrow> r = Some [])
      \<and> (fst (logger (DebugApi (prefixProvidedMessage [])) m) = Inr ()
           \<longrightarrow> fst (entityReferencePrefixFromInfo k infoDict m) = Inr (Some []))"
    using lg by (cases r1) (auto simp add: entityReferencePrefixFromInfo_def)
  moreover have
    "entityReferencePrefix m = Some [] \<longrightarrow> isEntityReferenceString mi s m = (Inr True, m)"
    by (simp add: isEntityReferenceString_def rfind_at_start_Some)
  ultimately show ?thesis by blast
qed

text \<open>A concrete run of the stub plugin that meets the hypotheses of C9.\<close>

theorem empty_prefix_accepts_every_string_witness:
  "[stubInfoKey \<mapsto> InfoStr []] stubInfoKey = Some (InfoStr [])
   \<and> fst (logger (DebugApi (prefixProvidedMessage [])) freshManager) = Inr ()
   \<and> fst (entityReferencePrefixFromInfo stubInfoKey [stubInfoKey \<mapsto> InfoStr []] freshManager)
       = Inr (Some [])
   \<and> entityReferencePrefix (freshManager\<lparr>entityReferencePrefix := Some []\<rparr>) = Some []
   \<and> fst (isEntityReferenceString (stubInterface (\<lambda>c. True) [] []) []
            (freshManager\<lparr>entityReferencePrefix := Some []\<rparr>)) = Inr True
   \<and> fst (isEntityReferenceString (stubInterface (\<lambda>c. True) [] []) ''/tmp/file.txt''
            (freshManager\<lparr>entityReferencePrefix := Some []\<rparr>)) = Inr True"
proof -
  have key: "[stubInfoKey \<mapsto> InfoStr []] stubInfoKey = Some (InfoStr [])"
    by simp
  have lg: "fst (logger (DebugApi (prefixProvidedMessage [])) freshManager) = Inr ()"
    by (simp add: logger_def freshManager_def Manager_make_def quietSession_def Let_def)
  from empty_prefix_accepts_every_string
         [where infoDict = "[stubInfoKey \<mapsto> InfoStr []]" and k = stubInfoKey
            and m = freshManager,
          THEN conjunct1, THEN mp, OF key, THEN conjunct2, THEN mp, OF lg]
  have cached: "fst (entityReferencePrefixFromInfo stubInfoKey [stubInfoKey \<mapsto> InfoStr []]
                       freshManager) = Inr (Some [])" .
  have pre: "entityReferencePrefix (freshManager\<lparr>entityReferencePrefix := Some []\<rparr>) = Some []"
    by simp
  from empty_prefix_accepts_every_string
         [where m = "freshManager\<lparr>entityReferencePrefix := Some []\<rparr>"
            and mi = "stubInterface (\<lambda>c. True) [] []" and s = "[]",
          THEN conjunct2, THEN mp, OF pre]
  have e: "fst (isEntityReferenceString (stubInterface (\<lambda>c. True) [] []) []
                  (freshManager\<lparr>entityReferencePrefix := Some []\<rparr>)) = Inr True"
    by simp
  from empty_prefix_accepts_every_string
         [where m = "freshManager\<lparr>entityReferencePrefix := Some []\<rparr>"
            and mi = "stubInterface (\<lambda>c. True) [] []" and s = "''/tmp/file.txt''",
          THEN conjunct2, THEN mp, OF pre]
  have f: "fst (isEntityReferenceString (stubInterface (\<lambda>c. True) [] []) ''/tmp/file.txt''
                  (freshManager\<lparr>entityReferencePrefix := Some []\<rparr>)) = Inr True"
    by simp
  from key lg cached pre e f show ?thesis by blast
qed


text \<open>
  C10. If the plugin's initialisation throws, or if it returns and the capability
  verification throws, \<open>initialize\<close> throws that exception and the prefix cache keeps the
  value it had before the call. Hence a call of \<open>initialize\<close> that changes the cache is
  one in which both have returned.
\<close>

theorem initialize_failure_keeps_prefix:
  "(\<forall>e p. plugin_initialize mi managerSettings (managerInterface m) = (Inl e, p) \<longrightarrow>
      fst (initialize mi names key managerSettings m) = Inl e
      \<and> entityReferencePrefix (snd (initialize mi names key managerSettings m))
          = entityReferencePrefix m)
   \<and> (\<forall>m1 e m2. callPlugin M_initialize (plugin_initialize mi managerSettings) m = (Inr (), m1)
        \<and> verifyRequiredCapabilities mi names m1 = (Inl e, m2) \<longrightarrow>
      fst (initialize mi names key managerSettings m) = Inl e
      \<and> entityReferencePrefix (snd (initialize mi names key managerSettings m))
          = entityReferencePrefix m)
   \<and> (entityReferencePrefix (snd (initialize mi names key managerSettings m))
          \<noteq> entityReferencePrefix m \<longrightarrow>
        (\<exists>m1 m2. callPlugin M_initialize (plugin_initialize mi managerSettings) m = (Inr (), m1)
           \<and> verifyRequiredCapabilities mi names m1 = (Inr (), m2)))"
proof -
  obtain r1 m1 where init: "callPlugin M_initialize (plugin_initialize mi managerSettings) m = (r1, m1)"
    by (cases "callPlugin M_initialize (plugin_initialize mi managerSettings) m")
  have p1: "entityReferencePrefix m1 = entityReferencePrefix m"
    using init by (rule callPlugin_prefix)
  obtain r2 m2 where ver: "verifyRequiredCapabilities mi names m1 = (r2, m2)"
    by (cases "verifyRequiredCapabilities mi names m1")
  have p2: "entityReferencePrefix m2 = entityReferencePrefix m1"
    using ver by (rule verifyRequiredCapabilities_prefix)
  obtain r3 m3 where inf: "callPlugin M_info (plugin_info mi) m2 = (r3, m3)"
    by (cases "callPlugin M_info (plugin_info mi) m2")
  have p3: "entityReferencePrefix m3 = entityReferencePrefix m2"
    using inf by (rule callPlugin_prefix)
  have a: "\<forall>e p. plugin_initialize mi managerSettings (managerInterface m) = (Inl e, p) \<longrightarrow>
      fst (initialize mi names key managerSettings m) = Inl e
      \<and> entityReferencePrefix (snd (initialize mi names key managerSettings m))
          = entityReferencePrefix m"
    by (simp add: initialize_def callPlugin_def)
  have b: "\<forall>m1 e m2. callPlugin M_initialize (plugin_initialize mi managerSettings) m = (Inr (), m1)
        \<and> verifyRequiredCapabilities mi names m1 = (Inl e, m2) \<longrightarrow>
      fst (initialize mi names key managerSettings m) = Inl e
      \<and> entityReferencePrefix (snd (initialize mi names key managerSettings m))
          = entityReferencePrefix m"
    using init ver p1 p2 by (auto simp add: initialize_def)
  have c: "entityReferencePrefix (snd (initialize mi names key managerSettings m))
          \<noteq> entityReferencePrefix m \<longrightarrow>
        (\<exists>m1 m2. callPlugin M_initialize (plugin_initialize mi managerSettings) m = (Inr (), m1)
           \<and> verifyRequiredCapabilities mi names m1 = (Inr (), m2))"
    using init ver inf p1 p2 p3
    by (cases r1; cases r2; cases r3)
       (auto simp add: initialize_def split: prod.splits sum.splits)
  from a b c show ?thesis by blast
qed

text \<open>A concrete run of the stub plugin that meets the hypotheses of C10.\<close>

theorem initialize_failure_keeps_prefix_witness:
  "callPlugin M_initialize
     (plugin_initialize (stubInterface (\<lambda>c. False) [] []) [stubInfoKey \<mapsto> InfoStr ''new:''])
     (freshManager\<lparr>entityReferencePrefix := Some ''old:''\<rparr>)
     = (Inr (),
        snd (callPlugin M_initialize
               (plugin_initialize (stubInterface (\<lambda>c. False) [] [])
                  [stubInfoKey \<mapsto> InfoStr ''new:''])
               (freshManager\<lparr>entityReferencePrefix := Some ''old:''\<rparr>)))
   \<and> (\<exists>e. fst (initialize (stubInterface (\<lambda>c. False) [] []) stubCapabilityNames stubInfoKey
                   [stubInfoKey \<mapsto> InfoStr ''new:'']
                   (freshManager\<lparr>entityReferencePrefix := Some ''old:''\<rparr>)) = Inl e)
   \<and> entityReferencePrefix
        (snd (initialize (stubInterface (\<lambda>c. False) [] []) stubCapabilityNames stubInfoKey
                [stubInfoKey \<mapsto> InfoStr ''new:'']
                (freshManager\<lparr>entityReferencePrefix := Some ''old:''\<rparr>)))
       = Some ''old:''
   \<and> plugin_initialize
        ((stubInterface (\<lambda>c. True) [] [])
           \<lparr>plugin_initialize := \<lambda>managerSettings p. (Inl (OtherException ''offline''), p)\<rparr>)
        [stubInfoKey \<mapsto> InfoStr ''new:'']
        (managerInterface (freshManager\<lparr>entityReferencePrefix := Some ''old:''\<rparr>))
       = (Inl (OtherException ''offline''), Map.empty)
   \<and> fst (initialize
            ((stubInterface (\<lambda>c. True) [] [])
               \<lparr>plugin_initialize := \<lambda>managerSettings p. (Inl (OtherException ''offline''), p)\<rparr>)
            stubCapabilityNames stubInfoKey [stubInfoKey \<mapsto> InfoStr ''new:'']
            (freshManager\<lparr>entityReferencePrefix := Some ''old:''\<rparr>))
       = Inl (OtherException ''offline'')
   \<and> entityReferencePrefix
        (snd (initialize
                ((stubInterface (\<lambda>c. True) [] [])
                   \<lparr>plugin_initialize := \<lambda>managerSettings p. (Inl (OtherException ''offline''), p)\<rparr>)
                stubCapabilityNames stubInfoKey [stubInfoKey \<mapsto> InfoStr ''new:'']
                (freshManager\<lparr>entityReferencePrefix := Some ''old:''\<rparr>)))
       = Some ''old:''"
proof -
  let ?mi = "stubInterface (\<lambda>c. False) [] []"
  let ?off = "(stubInterface (\<lambda>c. True) [] [])
                \<lparr>plugin_initialize := \<lambda>managerSettings p. (Inl (OtherException ''offline''), p)\<rparr>"
  let ?settings = "[stubInfoKey \<mapsto> InfoStr ''new:'']"
  let ?m = "freshManager\<lparr>entityReferencePrefix := Some ''old:''\<rparr>"
  let ?m1 = "snd (callPlugin M_initialize (plugin_initialize ?mi ?settings) ?m)"
  have init: "callPlugin M_initialize (plugin_initialize ?mi ?settings) ?m = (Inr (), ?m1)"
    by (simp add: callPlugin_def stubInterface_def)
  obtain e m2 where ver: "verifyRequiredCapabilities ?mi stubCapabilityNames ?m1 = (Inl e, m2)"
    by (simp add: verifyRequiredCapabilities_def kRequiredCapabilities_def callPlugin_def
          stubInterface_def freshManager_def Manager_make_def)
  have off: "plugin_initialize ?off ?settings (managerInterface ?m)
               = (Inl (OtherException ''offline''), Map.empty)"
    by (simp add: stubInterface_def freshManager_def Manager_make_def)
  from initialize_failure_keeps_prefix
         [where mi = ?mi and managerSettings = ?settings and m = ?m
            and names = stubCapabilityNames and key = stubInfoKey,
          THEN conjunct2, THEN conjunct1, rule_format, of ?m1 e m2] init ver
  have a: "fst (initialize ?mi stubCapabilityNames stubInfoKey ?settings ?m) = Inl e"
    and b: "entityReferencePrefix (snd (initialize ?mi stubCapabilityNames stubInfoKey ?settings ?m))
              = Some ''old:''"
    by simp_all
  from initialize_failure_keeps_prefix
         [where mi = ?off and managerSettings = ?settings and m = ?m
            and names = stubCapabilityNames and key = stubInfoKey,
          THEN conjunct1, rule_format, of "OtherException ''offline''" Map.empty] off
  have c: "fst (initialize ?off stubCapabilityNames stubInfoKey ?settings ?m)
             = Inl (OtherException ''offline'')"
    and d: "entityReferencePrefix (snd (initialize ?off stubCapabilityNames stubInfoKey ?settings ?m))
              = Some ''old:''"
    by simp_all
  from init a b off c d show ?thesis by blast
qed

end
